theory Spec2Isabelle
  imports Main "HOL-Library.Sublist" "HOL-Library.AList"
begin

section \<open>Data model\<close>

text \<open>
  The documents of the store, as the Mongoose schemas declare them. An ObjectId is a
  natural number, a Date is a natural number of milliseconds. Quantities, prices and stock
  are integers (the request schemas admit integers only); amounts computed from them are
  JavaScript numbers.
  Every schema is declared with \<^verbatim>\<open>timestamps: true\<close>, so every document carries
  \<^verbatim>\<open>updatedAt\<close>, which Mongoose sets on \<^verbatim>\<open>save\<close> and on \<^verbatim>\<open>updateOne\<close>.
\<close>

type_synonym objectId = nat
type_synonym date = nat

subsection \<open>JavaScript numbers\<close>

text \<open>
  A Number is a double. Computed from integers by addition and multiplication, its values
  are the integers a double can hold, the two infinities and NaN. A double holds an
  integer exactly when 53 significant bits are enough; \<open>toDouble\<close> is the double nearest
  to an exact integer result, ties going to the even significand, and a result that rounds
  to \<open>2 ^ 1024\<close> or beyond is an infinity. Signed zero is not distinguished: it compares
  and adds as zero.
\<close>

datatype number = Fin int | PosInfinity | NegInfinity | NaN

text \<open>The number of low bits that do not fit in 53.\<close>

function excessBits :: "nat \<Rightarrow> nat" where
  "excessBits n = (if n < 2 ^ 53 then 0 else Suc (excessBits (n div 2)))"
  by pat_completeness auto
termination
  by (relation "measure (\<lambda>n. n)") auto

declare excessBits.simps [simp del]

definition roundMagnitude :: "nat \<Rightarrow> nat" where
  "roundMagnitude n =
     (let e = excessBits n; q = n div 2 ^ e; r = n mod 2 ^ e
      in if 2 * r > 2 ^ e \<or> (2 * r = 2 ^ e \<and> odd q) then (q + 1) * 2 ^ e else q * 2 ^ e)"

definition toDouble :: "int \<Rightarrow> number" where
  "toDouble x =
     (let m = roundMagnitude (nat \<bar>x\<bar>)
      in if m \<ge> 2 ^ 1024 then (if x < 0 then NegInfinity else PosInfinity)
         else Fin (if x < 0 then - int m else int m))"

fun signOf :: "number \<Rightarrow> int" where
  "signOf (Fin a) = sgn a"
| "signOf PosInfinity = 1"
| "signOf NegInfinity = - 1"
| "signOf NaN = 0"

definition infinityOf :: "int \<Rightarrow> number" where
  "infinityOf s = (if s > 0 then PosInfinity else if s < 0 then NegInfinity else NaN)"

text \<open>\<^verbatim>\<open>x + y\<close>: infinities of opposite sign add to NaN.\<close>

fun addNumber :: "number \<Rightarrow> number \<Rightarrow> number" where
  "addNumber (Fin a) (Fin b) = toDouble (a + b)"
| "addNumber NaN y = NaN"
| "addNumber x NaN = NaN"
| "addNumber PosInfinity NegInfinity = NaN"
| "addNumber NegInfinity PosInfinity = NaN"
| "addNumber PosInfinity y = PosInfinity"
| "addNumber x PosInfinity = PosInfinity"
| "addNumber NegInfinity y = NegInfinity"
| "addNumber x NegInfinity = NegInfinity"

text \<open>\<^verbatim>\<open>x * y\<close>: zero times an infinity is NaN.\<close>

fun mulNumber :: "number \<Rightarrow> number \<Rightarrow> number" where
  "mulNumber (Fin a) (Fin b) = toDouble (a * b)"
| "mulNumber NaN y = NaN"
| "mulNumber x NaN = NaN"
| "mulNumber x y = infinityOf (signOf x * signOf y)"

text \<open>\<^verbatim>\<open>x > 0\<close>: false for NaN.\<close>

fun greaterThanZero :: "number \<Rightarrow> bool" where
  "greaterThanZero (Fin a) = (a > 0)"
| "greaterThanZero PosInfinity = True"
| "greaterThanZero NegInfinity = False"
| "greaterThanZero NaN = False"

subsection \<open>Documents\<close>

datatype order_status = Pending | Processing | Paid | Shipped | Delivered | Cancelled

datatype payment_status = Initialized | Success | Failed | Refunded

record cart_line =
  cl_productId :: objectId
  cl_variantId :: objectId
  cl_name :: string
  cl_quantity :: int
  cl_unitPriceNgn :: int

record cart =
  c_id :: objectId
  c_tenantId :: objectId
  c_userId :: "objectId option"
  c_sessionId :: "string option"
  c_lines :: "cart_line list"
  c_updatedAt :: date

record order_line =
  ol_productId :: objectId
  ol_variantId :: objectId
  ol_name :: string
  ol_quantity :: int
  ol_unitPriceNgn :: int

record status_event =
  ev_status :: order_status
  ev_note :: string
  ev_trackingNumber :: "string option"
  ev_actor :: string
  ev_at :: date

record shipping_address =
  sa_address :: string
  sa_city :: string
  sa_state :: string

record order =
  o_id :: objectId
  o_tenantId :: objectId
  o_userId :: objectId
  o_orderRef :: string
  o_status :: order_status
  o_currency :: string
  o_subtotalNgn :: number
  o_shippingNgn :: number
  o_totalNgn :: number
  o_shippingAddress :: shipping_address
  o_trackingNumber :: "string option"
  o_fulfillmentBranchId :: "objectId option"
  o_lines :: "order_line list"
  o_timeline :: "status_event list"
  o_createdAt :: date
  o_updatedAt :: date

text \<open>
  Payment metadata is a JavaScript object: an association list from keys to values, a
  value being a string or \<^verbatim>\<open>undefined\<close> (\<open>None\<close>).
\<close>

type_synonym metadata = "(string \<times> string option) list"

record payment =
  p_id :: objectId
  p_tenantId :: objectId
  p_userId :: objectId
  p_orderId :: objectId
  p_provider :: string
  p_providerRef :: string
  p_status :: payment_status
  p_amountNgn :: number
  p_currency :: string
  p_initializedAt :: date
  p_verifiedAt :: "date option"
  p_metadata :: metadata
  p_createdAt :: date
  p_updatedAt :: date

text \<open>
  Of a product only the fields that checkout and finalize read or write are kept: its
  id, tenant, name and variants. Slug, description and images are catalogue data that no
  operation below touches.
\<close>

record variant =
  v_id :: objectId
  v_sku :: string
  v_size :: string
  v_color :: string
  v_stock :: int
  v_priceNgn :: int

record product =
  pr_id :: objectId
  pr_tenantId :: objectId
  pr_name :: string
  pr_variants :: "variant list"
  pr_updatedAt :: date

record user =
  u_id :: objectId
  u_email :: string
  u_firstName :: "string option"
  u_lastName :: "string option"

record address =
  a_id :: objectId
  a_tenantId :: objectId
  a_userId :: objectId
  a_addressLine1 :: string
  a_addressLine2 :: string
  a_city :: string
  a_state :: string

datatype carrier_status =
  LabelCreated | PickedUp | InTransit | OutForDelivery | CarrierDelivered | CarrierException

record tracking_event =
  te_id :: objectId
  te_tenantId :: objectId
  te_orderId :: objectId
  te_provider :: string
  te_externalTrackingId :: string
  te_status :: carrier_status
  te_location :: "string option"
  te_message :: "string option"
  te_eventAt :: date

text \<open>The payload of an \<^verbatim>\<open>order-status\<close> job on the queue \<^verbatim>\<open>sws-notifications\<close>.\<close>

record notification =
  n_tenantId :: objectId
  n_userId :: objectId
  n_email :: string
  n_customerName :: string
  n_orderId :: objectId
  n_orderRef :: string
  n_status :: order_status
  n_trackingNumber :: "string option"
  n_note :: string

text \<open>
  The state: the collections of the document store, each in insertion order, and the
  jobs on the notification queue.
\<close>

record db =
  payments :: "payment list"
  orders :: "order list"
  products :: "product list"
  carts :: "cart list"
  users :: "user list"
  addresses :: "address list"
  trackingEvents :: "tracking_event list"
  queue :: "notification list"

text \<open>The process environment (config/env.ts and \<^verbatim>\<open>process.env.REDIS_URL\<close>).\<close>

record env =
  PAYSTACK_SECRET_KEY :: "string option"
  PAYSTACK_WEBHOOK_SECRET :: "string option"
  REDIS_URL :: "string option"

text \<open>Every \<^verbatim>\<open>throw\<close> of the modelled code, one constructor per site.\<close>

datatype error =
  PaymentReferenceNotFound
  | OrderNotFoundForPayment
  | FailedToDecrementStock objectId
  | PaystackSecretKeyNotConfigured
  | FailedToInitializePaystack
  | InvalidObjectId
  | DuplicateKey
  | NumberCastFailed
  | JsonSyntaxError

text \<open>
  \<^verbatim>\<open>ObjectId.toString()\<close> is the id in hexadecimal digits (the source pads them to 24;
  the padding is left out).
\<close>

definition hexDigit :: "nat \<Rightarrow> char" where
  "hexDigit d = (if d < 10 then char_of (48 + d) else char_of (87 + d))"

fun toHexString :: "nat \<Rightarrow> string" where
  "toHexString n =
     (if n < 16 then [hexDigit n]
      else toHexString (n div 16) @ [hexDigit (n mod 16)])"

declare toHexString.simps [simp del]

text \<open>
  The message of each error. The first three are the \<^verbatim>\<open>throw\<close> statements of finalize;
  the texts of a duplicate key and of a JSON syntax error come from the driver and the
  runtime.
\<close>

fun errorMessage :: "error \<Rightarrow> string" where
  "errorMessage PaymentReferenceNotFound = ''Payment reference not found''"
| "errorMessage OrderNotFoundForPayment = ''Order not found for payment''"
| "errorMessage (FailedToDecrementStock productId) =
     ''Failed to decrement stock for product '' @ toHexString productId"
| "errorMessage PaystackSecretKeyNotConfigured = ''PAYSTACK_SECRET_KEY is not configured''"
| "errorMessage FailedToInitializePaystack = ''Failed to initialize Paystack transaction''"
| "errorMessage InvalidObjectId = ''Invalid ObjectId''"
| "errorMessage DuplicateKey = ''E11000 duplicate key error''"
| "errorMessage NumberCastFailed = ''Cast to Number failed''"
| "errorMessage JsonSyntaxError = ''Unexpected token in JSON''"

text \<open>\<^verbatim>\<open>String.prototype.includes\<close>: the second string occurs in the first.\<close>

fun includesString :: "string \<Rightarrow> string \<Rightarrow> bool" where
  "includesString [] sub = (sub = [])"
| "includesString (c # cs) sub = (prefix sub (c # cs) \<or> includesString cs sub)"

text \<open>A JavaScript string is truthy when it is present and not empty.\<close>

fun truthy :: "string option \<Rightarrow> bool" where
  "truthy None = False"
| "truthy (Some s) = (s \<noteq> [])"

datatype response_body =
  Message string
  | Acknowledged "bool option"
  | Detail string
  | CheckoutCreated string string string
  | OrderView objectId order_status "string option" "status_event list"
  | TrackingView objectId

datatype http_response = Response nat response_body | Unhandled error

section \<open>Cart totals (utils/cart.ts)\<close>

text \<open>
  \<^verbatim>\<open>cart.lines.reduce((acc, item) => acc + item.quantity * item.unitPriceNgn, 0)\<close>
  is a left fold from 0, in double arithmetic: each product and each sum is rounded.
\<close>

record totals =
  subtotalNgn :: number
  shippingNgn :: number
  totalNgn :: number

definition calculateCartTotals :: "cart_line list \<Rightarrow> totals" where
  "calculateCartTotals ls =
     (let subtotal = foldl (\<lambda>acc item.
                         addNumber acc (mulNumber (toDouble (cl_quantity item))
                                                  (toDouble (cl_unitPriceNgn item))))
                       (Fin 0) ls;
          shipping = (if greaterThanZero subtotal then Fin 2500 else Fin 0);
          total = addNumber subtotal shipping
      in \<lparr>subtotalNgn = subtotal, shippingNgn = shipping, totalNgn = total\<rparr>)"

section \<open>Order status transitions (admin router)\<close>

text \<open>The table \<^verbatim>\<open>allowedTransition\<close>, one entry per status.\<close>

fun allowedTransition :: "order_status \<Rightarrow> order_status list" where
  "allowedTransition Pending = [Processing, Shipped, Cancelled]"
| "allowedTransition Processing = [Shipped, Cancelled]"
| "allowedTransition Paid = [Processing, Shipped, Cancelled]"
| "allowedTransition Shipped = [Delivered]"
| "allowedTransition Delivered = []"
| "allowedTransition Cancelled = []"

definition canTransition :: "order_status \<Rightarrow> order_status \<Rightarrow> bool" where
  "canTransition from to = (if from = to then True else to \<in> set (allowedTransition from))"

section \<open>The document store\<close>

text \<open>
  \<^verbatim>\<open>Model.findOne(filter)\<close> is \<open>find\<close>: the first document of the collection that
  satisfies the filter. \<^verbatim>\<open>Model.updateOne(filter, update)\<close> and \<^verbatim>\<open>doc.save()\<close> change
  the first document that satisfies the filter and no other.
\<close>

fun updateOne :: "('a \<Rightarrow> bool) \<Rightarrow> ('a \<Rightarrow> 'a) \<Rightarrow> 'a list \<Rightarrow> 'a list" where
  "updateOne matches upd [] = []"
| "updateOne matches upd (x # xs) =
     (if matches x then upd x # xs else x # updateOne matches upd xs)"

text \<open>
  Object spread \<^verbatim>\<open>{ ...a, ...b }\<close>: the keys of \<open>b\<close> overwrite those of \<open>a\<close> in place,
  new keys are added at the end, and no key of \<open>a\<close> is dropped.
\<close>

definition spread :: "metadata \<Rightarrow> metadata \<Rightarrow> metadata" where
  "spread a b = foldl (\<lambda>m kv. AList.update (fst kv) (snd kv) m) a b"

text \<open>
  What the store keeps of an object: a key whose value is \<^verbatim>\<open>undefined\<close> is left out
  when the document is saved.
\<close>

definition omitUndefined :: "metadata \<Rightarrow> metadata" where
  "omitUndefined m = filter (\<lambda>kv. snd kv \<noteq> None) m"

definition storedPayment :: "payment \<Rightarrow> payment" where
  "storedPayment pay = pay\<lparr>p_metadata := omitUndefined (p_metadata pay)\<rparr>"

definition isSpace :: "char \<Rightarrow> bool" where
  "isSpace c = (c \<in> set [CHR '' '', CHR 0x09, CHR 0x0A, CHR 0x0B, CHR 0x0C, CHR 0x0D])"

definition trim :: "string \<Rightarrow> string" where
  "trim s = rev (dropWhile isSpace (rev (dropWhile isSpace s)))"

fun orEmpty :: "string option \<Rightarrow> string" where
  "orEmpty None = []"
| "orEmpty (Some s) = s"

section \<open>Notification queue (services/notificationQueue.ts)\<close>

text \<open>
  Without \<^verbatim>\<open>REDIS_URL\<close> there is no queue and nothing is enqueued; with it the job is
  added at the end of the queue.
\<close>

definition enqueueOrderStatusNotification :: "env \<Rightarrow> notification \<Rightarrow> notification list \<Rightarrow> notification list" where
  "enqueueOrderStatusNotification e payload q =
     (if \<not> truthy (REDIS_URL e) then q else q @ [payload])"

text \<open>
  The notification step shared by finalize and the admin status update: look the customer
  up, and enqueue only when the customer has an email.
\<close>

definition notifyCustomer ::
  "env \<Rightarrow> order \<Rightarrow> order_status \<Rightarrow> string option \<Rightarrow> string \<Rightarrow> db \<Rightarrow> db" where
  "notifyCustomer e ord st tracking note s =
     (case find (\<lambda>u. u_id u = o_userId ord) (users s) of
        None \<Rightarrow> s
      | Some customer \<Rightarrow>
          if u_email customer = [] then s
          else s\<lparr>queue := enqueueOrderStatusNotification e
                 \<lparr>n_tenantId = o_tenantId ord, n_userId = o_userId ord,
                  n_email = u_email customer,
                  n_customerName =
                    trim (orEmpty (u_firstName customer) @ '' '' @ orEmpty (u_lastName customer)),
                  n_orderId = o_id ord, n_orderRef = o_orderRef ord, n_status = st,
                  n_trackingNumber = tracking, n_note = note\<rparr>
                 (queue s)\<rparr>)"

section \<open>Finalize (modules/payments.ts)\<close>

text \<open>
  The stock update of one order line. The filter
  \<^verbatim>\<open>{ _id, tenantId, "variants._id": variantId, "variants.stock": { $gte: quantity } }\<close>
  has two conditions on the array \<^verbatim>\<open>variants\<close> and no \<^verbatim>\<open>$elemMatch\<close>: the store
  evaluates each on its own, so a product matches when some variant has the id and some
  variant, the same or another, has the stock. The positional \<^verbatim>\<open>variants.$\<close> of the
  update stands for the first element that satisfied the array condition evaluated last,
  the one on \<^verbatim>\<open>stock\<close>.
\<close>

definition stockFilter :: "objectId \<Rightarrow> order_line \<Rightarrow> product \<Rightarrow> bool" where
  "stockFilter tenantId line p =
     (pr_id p = ol_productId line \<and> pr_tenantId p = tenantId
      \<and> list_ex (\<lambda>v. v_id v = ol_variantId line) (pr_variants p)
      \<and> list_ex (\<lambda>v. v_stock v \<ge> ol_quantity line) (pr_variants p))"

definition incPositionalStock :: "order_line \<Rightarrow> date \<Rightarrow> product \<Rightarrow> product" where
  "incPositionalStock line now p =
     p\<lparr>pr_variants :=
         updateOne (\<lambda>v. v_stock v \<ge> ol_quantity line)
           (\<lambda>v. v\<lparr>v_stock := v_stock v + (- ol_quantity line)\<rparr>) (pr_variants p),
       pr_updatedAt := now\<rparr>"

text \<open>
  The loop \<^verbatim>\<open>for (const line of order.lines)\<close>; the first update that modifies no
  document throws.
\<close>

fun decrementLines ::
  "objectId \<Rightarrow> date \<Rightarrow> order_line list \<Rightarrow> product list \<Rightarrow> error + product list" where
  "decrementLines tenantId now [] ps = Inr ps"
| "decrementLines tenantId now (line # ls) ps =
     (let modifiedCount = (if list_ex (stockFilter tenantId line) ps then 1 else 0 :: nat)
      in if modifiedCount \<noteq> 1 then Inl (FailedToDecrementStock (ol_productId line))
         else decrementLines tenantId now ls
                (updateOne (stockFilter tenantId line) (incPositionalStock line now) ps))"

record finalize_result =
  r_payment :: payment
  r_order :: order
  r_idempotent :: bool

text \<open>
  The transaction is the \<open>case\<close> on \<open>decrementLines\<close>: when a line fails, the writes
  made in the session are dropped (\<^verbatim>\<open>abortTransaction\<close>) and the state is the one the
  call started from; otherwise payment, order, stock and cart are committed together and
  the notification follows the commit. The call returns the payment document it holds in
  memory, metadata keys valued \<^verbatim>\<open>undefined\<close> included; the store keeps it without them. The clock is one reading per call, \<open>now\<close>, for
  every \<^verbatim>\<open>new Date()\<close> and every \<^verbatim>\<open>updatedAt\<close> of the call.
\<close>

definition finalizeSuccessfulPayment ::
  "env \<Rightarrow> date \<Rightarrow> string \<Rightarrow> metadata \<Rightarrow> db \<Rightarrow> (error + finalize_result) \<times> db" where
  "finalizeSuccessfulPayment e now reference md s =
     (case find (\<lambda>p. p_providerRef p = reference) (payments s) of
        None \<Rightarrow> (Inl PaymentReferenceNotFound, s)
      | Some pay \<Rightarrow>
         (case find (\<lambda>ord. o_id ord = p_orderId pay) (orders s) of
            None \<Rightarrow> (Inl OrderNotFoundForPayment, s)
          | Some ord \<Rightarrow>
              if p_status pay = Success
              then (Inr \<lparr>r_payment = pay, r_order = ord, r_idempotent = True\<rparr>, s)
              else
                let pay' = pay\<lparr>p_status := Success, p_verifiedAt := Some now,
                                p_metadata := spread (p_metadata pay) md, p_updatedAt := now\<rparr>;
                    ord' = ord\<lparr>o_status := Paid,
                               o_timeline := o_timeline ord @
                                 [\<lparr>ev_status = Paid, ev_note = ''Payment confirmed.'',
                                   ev_trackingNumber = None, ev_actor = ''system'',
                                   ev_at = now\<rparr>],
                               o_updatedAt := now\<rparr>
                in (case decrementLines (o_tenantId ord') now (o_lines ord') (products s) of
                      Inl err \<Rightarrow> (Inl err, s)
                    | Inr ps \<Rightarrow>
                        let committed = s\<lparr>
                              payments := updateOne (\<lambda>q. p_id q = p_id pay')
                                            (\<lambda>_. storedPayment pay') (payments s),
                              orders := updateOne (\<lambda>q. o_id q = o_id ord') (\<lambda>_. ord') (orders s),
                              products := ps,
                              carts := updateOne
                                (\<lambda>c. c_tenantId c = o_tenantId ord' \<and> c_userId c = Some (o_userId ord'))
                                (\<lambda>c. c\<lparr>c_lines := [], c_updatedAt := now\<rparr>) (carts s)\<rparr>
                        in (Inr \<lparr>r_payment = pay', r_order = ord', r_idempotent = False\<rparr>,
                            notifyCustomer e ord' Paid None ''Payment confirmed.'' committed))))"

section \<open>Webhook (services/paystack.ts, modules/payments.ts)\<close>

text \<open>
  HMAC-SHA512 with hexadecimal digest is the platform's \<^verbatim>\<open>crypto\<close>; it is a parameter,
  from the secret and the raw body to the digest.
\<close>

definition verifyPaystackWebhookSignature ::
  "(string \<Rightarrow> string \<Rightarrow> string) \<Rightarrow> env \<Rightarrow> string \<Rightarrow> string option \<Rightarrow> bool" where
  "verifyPaystackWebhookSignature hmacSha512Hex e rawBody signature =
     (if \<not> truthy (PAYSTACK_WEBHOOK_SECRET e) then True
      else Some (hmacSha512Hex (orEmpty (PAYSTACK_WEBHOOK_SECRET e)) rawBody) = signature)"

text \<open>
  A webhook request: the signature header, the raw body handed to the signature check, and
  what \<^verbatim>\<open>JSON.parse\<close> makes of the body (\<open>None\<close> when it throws).
\<close>

record webhook_data =
  wd_reference :: "string option"
  wd_gateway_response :: "string option"
  wd_paid_at :: "string option"

record webhook_payload =
  wp_event :: "string option"
  wp_data :: "webhook_data option"

record webhook_request =
  wr_signature :: "string option"
  wr_rawBody :: string
  wr_payload :: "webhook_payload option"

definition dataField :: "(webhook_data \<Rightarrow> string option) \<Rightarrow> webhook_payload \<Rightarrow> string option" where
  "dataField f pl = (case wp_data pl of None \<Rightarrow> None | Some d \<Rightarrow> f d)"

definition paystackWebhook ::
  "(string \<Rightarrow> string \<Rightarrow> string) \<Rightarrow> env \<Rightarrow> date \<Rightarrow> webhook_request \<Rightarrow> db \<Rightarrow> http_response \<times> db" where
  "paystackWebhook hmacSha512Hex e now req s =
     (if \<not> verifyPaystackWebhookSignature hmacSha512Hex e (wr_rawBody req) (wr_signature req)
      then (Response 401 (Message ''Invalid webhook signature''), s)
      else case wr_payload req of
        None \<Rightarrow> (Unhandled JsonSyntaxError, s)
      | Some pl \<Rightarrow>
          if wp_event pl \<noteq> Some ''charge.success'' then (Response 200 (Acknowledged None), s)
          else if \<not> truthy (dataField wd_reference pl)
          then (Response 400 (Message ''Missing payment reference''), s)
          else
            (case finalizeSuccessfulPayment e now (orEmpty (dataField wd_reference pl))
                    [(''source'', Some ''webhook''),
                     (''gatewayResponse'', dataField wd_gateway_response pl),
                     (''paidAt'', dataField wd_paid_at pl)] s of
               (Inr result, s') \<Rightarrow> (Response 200 (Acknowledged (Some (r_idempotent result))), s')
             | (Inl err, s') \<Rightarrow>
                 if includesString (errorMessage err) ''not found''
                 then (Response 404 (Message (errorMessage err)), s')
                 else (Response 500 (Detail (errorMessage err)), s')))"

section \<open>Checkout initiation (checkout router)\<close>

text \<open>
  \<^verbatim>\<open>Date.now()\<close> in a template string is the decimal numeral of the clock reading.
\<close>

fun toString :: "nat \<Rightarrow> string" where
  "toString n =
     (if n < 10 then [char_of (48 + n)]
      else toString (n div 10) @ [char_of (48 + n mod 10)])"

declare toString.simps [simp del]

datatype address_choice = NoAddressId | InvalidAddressId | AddressId objectId

record checkout_body =
  cb_email :: string
  cb_addressId :: address_choice
  cb_shippingAddress :: "string option"
  cb_city :: "string option"
  cb_state :: "string option"

record paystack_init_payload =
  pi_email :: string
  pi_amountKobo :: number
  pi_reference :: string
  pi_metadata :: metadata

record paystack_init_data =
  authorization_url :: string
  access_code :: string

text \<open>
  The gateway is the outside world: a parameter that answers an initialize request with
  the transaction data, or with \<open>None\<close> when the request fails or is refused.
\<close>

type_synonym gateway = "paystack_init_payload \<Rightarrow> paystack_init_data option"

definition initializePaystackTransaction ::
  "env \<Rightarrow> gateway \<Rightarrow> paystack_init_payload \<Rightarrow> error + paystack_init_data" where
  "initializePaystackTransaction e gw payload =
     (if \<not> truthy (PAYSTACK_SECRET_KEY e) then Inl PaystackSecretKeyNotConfigured
      else case gw payload of
        None \<Rightarrow> Inl FailedToInitializePaystack
      | Some d \<Rightarrow> Inr d)"

text \<open>
  The shipping address: a saved address of this customer, or the inline fields. An
  \<^verbatim>\<open>addressId\<close> that is no ObjectId makes \<^verbatim>\<open>toObjectId\<close> throw.
\<close>

definition resolveShippingAddress ::
  "objectId \<Rightarrow> objectId \<Rightarrow> checkout_body \<Rightarrow> db \<Rightarrow> http_response + shipping_address" where
  "resolveShippingAddress tenantId userId body s =
     (case cb_addressId body of
        InvalidAddressId \<Rightarrow> Inl (Unhandled InvalidObjectId)
      | AddressId aid \<Rightarrow>
          (case find (\<lambda>a. a_id a = aid \<and> a_tenantId a = tenantId \<and> a_userId a = userId)
                  (addresses s) of
             None \<Rightarrow> Inl (Response 404 (Message ''Address not found''))
           | Some a \<Rightarrow>
               Inr \<lparr>sa_address = a_addressLine1 a @
                      (if a_addressLine2 a \<noteq> [] then '', '' @ a_addressLine2 a else []),
                    sa_city = a_city a, sa_state = a_state a\<rparr>)
      | NoAddressId \<Rightarrow>
          if truthy (cb_shippingAddress body) \<and> truthy (cb_city body) \<and> truthy (cb_state body)
          then Inr \<lparr>sa_address = orEmpty (cb_shippingAddress body),
                    sa_city = orEmpty (cb_city body), sa_state = orEmpty (cb_state body)\<rparr>
          else Inl (Response 400 (Message ''Shipping address is required'')))"

text \<open>
  \<^verbatim>\<open>Model.create\<close> inside the session. Validation refuses a NaN in a Number field;
  the insert is refused when the id is taken or a unique index is violated:
  \<^verbatim>\<open>{ tenantId, orderRef }\<close> on orders, \<^verbatim>\<open>{ tenantId, providerRef }\<close> on payments.
\<close>

definition insertOrder :: "order \<Rightarrow> order list \<Rightarrow> error + order list" where
  "insertOrder ord os =
     (if o_subtotalNgn ord = NaN \<or> o_shippingNgn ord = NaN \<or> o_totalNgn ord = NaN
      then Inl NumberCastFailed
      else if list_ex (\<lambda>q. o_id q = o_id ord
                      \<or> (o_tenantId q = o_tenantId ord \<and> o_orderRef q = o_orderRef ord)) os
      then Inl DuplicateKey else Inr (os @ [ord]))"

definition insertPayment :: "payment \<Rightarrow> payment list \<Rightarrow> error + payment list" where
  "insertPayment pay ps =
     (if p_amountNgn pay = NaN then Inl NumberCastFailed
      else if list_ex (\<lambda>q. p_id q = p_id pay
                      \<or> (p_tenantId q = p_tenantId pay \<and> p_providerRef q = p_providerRef pay)) ps
      then Inl DuplicateKey else Inr (ps @ [pay]))"

text \<open>
  The pieces of the handler of \<^verbatim>\<open>POST /initialize\<close>: the two references, the request
  to the gateway, and the two documents it creates.
\<close>

definition orderRefAt :: "date \<Rightarrow> string" where
  "orderRefAt now = ''SWS-'' @ toString now"

definition paymentRefAt :: "date \<Rightarrow> string \<Rightarrow> string" where
  "paymentRefAt now rnd = ''PAY-'' @ toString now @ ''-'' @ rnd"

definition initPayload ::
  "objectId \<Rightarrow> objectId \<Rightarrow> checkout_body \<Rightarrow> totals \<Rightarrow> string \<Rightarrow> string \<Rightarrow> paystack_init_payload" where
  "initPayload tenantId userId body tot orderRef paymentRef =
     \<lparr>pi_email = cb_email body, pi_amountKobo = mulNumber (totalNgn tot) (Fin 100),
      pi_reference = paymentRef,
      pi_metadata = [(''tenantId'', Some (toHexString tenantId)),
                     (''userId'', Some (toHexString userId)),
                     (''orderRef'', Some orderRef)]\<rparr>"

definition newOrder ::
  "objectId \<Rightarrow> objectId \<Rightarrow> objectId \<Rightarrow> string \<Rightarrow> totals \<Rightarrow> shipping_address \<Rightarrow> cart \<Rightarrow> date
     \<Rightarrow> order" where
  "newOrder newOrderId tenantId userId orderRef tot shippingAddress cart now =
     \<lparr>o_id = newOrderId, o_tenantId = tenantId, o_userId = userId,
      o_orderRef = orderRef, o_status = Pending, o_currency = ''NGN'',
      o_subtotalNgn = subtotalNgn tot, o_shippingNgn = shippingNgn tot,
      o_totalNgn = totalNgn tot, o_shippingAddress = shippingAddress,
      o_trackingNumber = None, o_fulfillmentBranchId = None,
      o_lines = map (\<lambda>line. \<lparr>ol_productId = cl_productId line,
                               ol_variantId = cl_variantId line,
                               ol_name = cl_name line,
                               ol_quantity = cl_quantity line,
                               ol_unitPriceNgn = cl_unitPriceNgn line\<rparr>) (c_lines cart),
      o_timeline = [\<lparr>ev_status = Pending,
                      ev_note = ''Order created and awaiting payment confirmation.'',
                      ev_trackingNumber = None, ev_actor = ''system'', ev_at = now\<rparr>],
      o_createdAt = now, o_updatedAt = now\<rparr>"

definition newPayment ::
  "objectId \<Rightarrow> objectId \<Rightarrow> objectId \<Rightarrow> objectId \<Rightarrow> string \<Rightarrow> totals \<Rightarrow> paystack_init_data
     \<Rightarrow> date \<Rightarrow> payment" where
  "newPayment newPaymentId tenantId userId orderId paymentRef tot paystack now =
     \<lparr>p_id = newPaymentId, p_tenantId = tenantId, p_userId = userId,
      p_orderId = orderId, p_provider = ''paystack'', p_providerRef = paymentRef,
      p_status = Initialized, p_amountNgn = totalNgn tot, p_currency = ''NGN'',
      p_initializedAt = now, p_verifiedAt = None,
      p_metadata = [(''accessCode'', Some (access_code paystack)),
                    (''authorizationUrl'', Some (authorization_url paystack))],
      p_createdAt = now, p_updatedAt = now\<rparr>"

text \<open>
  The handler of \<^verbatim>\<open>POST /initialize\<close> after \<^verbatim>\<open>requireCustomer\<close>. Inputs from outside:
  the clock, the random suffix \<^verbatim>\<open>Math.random().toString(36).slice(2, 8).toUpperCase()\<close>,
  the ids the driver generates for the two new documents, and the gateway. The gateway is
  called before the session starts; the two inserts are the transaction, and when either
  throws, the session is aborted and the state is the one before the call.
\<close>

definition checkoutInitialize ::
  "env \<Rightarrow> gateway \<Rightarrow> date \<Rightarrow> string \<Rightarrow> objectId \<Rightarrow> objectId \<Rightarrow> objectId \<Rightarrow> objectId
     \<Rightarrow> checkout_body option \<Rightarrow> db \<Rightarrow> http_response \<times> db" where
  "checkoutInitialize e gw now rnd newOrderId newPaymentId tenantId userId parsed s =
     (case parsed of
        None \<Rightarrow> (Response 400 (Message ''Invalid checkout payload''), s)
      | Some body \<Rightarrow>
     (case find (\<lambda>c. c_tenantId c = tenantId \<and> c_userId c = Some userId) (carts s) of
        None \<Rightarrow> (Response 409 (Message ''Cart is empty''), s)
      | Some cart \<Rightarrow>
     if c_lines cart = [] then (Response 409 (Message ''Cart is empty''), s)
     else
     (case resolveShippingAddress tenantId userId body s of
        Inl resp \<Rightarrow> (resp, s)
      | Inr shippingAddress \<Rightarrow>
     (case initializePaystackTransaction e gw
             (initPayload tenantId userId body (calculateCartTotals (c_lines cart))
                (orderRefAt now) (paymentRefAt now rnd)) of
        Inl err \<Rightarrow> (Unhandled err, s)
      | Inr paystack \<Rightarrow>
     (case insertOrder
             (newOrder newOrderId tenantId userId (orderRefAt now)
                (calculateCartTotals (c_lines cart)) shippingAddress cart now) (orders s) of
        Inl err \<Rightarrow> (Unhandled err, s)
      | Inr os \<Rightarrow>
     (case insertPayment
             (newPayment newPaymentId tenantId userId newOrderId (paymentRefAt now rnd)
                (calculateCartTotals (c_lines cart)) paystack now) (payments s) of
        Inl err \<Rightarrow> (Unhandled err, s)
      | Inr ps \<Rightarrow>
          (Response 201 (CheckoutCreated (orderRefAt now) (paymentRefAt now rnd)
                           (authorization_url paystack)),
           s\<lparr>orders := os, payments := ps\<rparr>)))))))"

section \<open>Admin order status and carrier tracking events (admin router)\<close>

fun statusName :: "order_status \<Rightarrow> string" where
  "statusName Pending = ''pending''"
| "statusName Processing = ''processing''"
| "statusName Paid = ''paid''"
| "statusName Shipped = ''shipped''"
| "statusName Delivered = ''delivered''"
| "statusName Cancelled = ''cancelled''"

record status_update_body =
  su_status :: order_status
  su_trackingNumber :: "string option"
  su_note :: "string option"

text \<open>
  What an accepted status update does to the order: the status is set, a tracking number
  in the request replaces the one on file, and one entry is pushed on the timeline.
\<close>

definition statusNote :: "status_update_body \<Rightarrow> string" where
  "statusNote body =
     (case su_note body of
        None \<Rightarrow> ''Order marked as '' @ statusName (su_status body)
      | Some n \<Rightarrow> n)"

definition statusUpdate :: "date \<Rightarrow> string option \<Rightarrow> status_update_body \<Rightarrow> order \<Rightarrow> order" where
  "statusUpdate now role body ord =
     (let tracking = (if truthy (su_trackingNumber body) then su_trackingNumber body
                      else o_trackingNumber ord)
      in ord\<lparr>o_status := su_status body, o_trackingNumber := tracking,
             o_timeline := o_timeline ord @
               [\<lparr>ev_status = su_status body, ev_note = statusNote body,
                 ev_trackingNumber = tracking,
                 ev_actor = (case role of None \<Rightarrow> ''admin'' | Some r \<Rightarrow> r),
                 ev_at = now\<rparr>],
             o_updatedAt := now\<rparr>)"

text \<open>
  The handler of \<^verbatim>\<open>PATCH /orders/:id/status\<close> after the permission check; \<open>role\<close> is
  \<^verbatim>\<open>req.claims?.role\<close>.
\<close>

definition adminUpdateOrderStatus ::
  "env \<Rightarrow> date \<Rightarrow> objectId \<Rightarrow> objectId \<Rightarrow> string option \<Rightarrow> status_update_body option
     \<Rightarrow> db \<Rightarrow> http_response \<times> db" where
  "adminUpdateOrderStatus e now tenantId orderId role parsed s =
     (case parsed of
        None \<Rightarrow> (Response 400 (Message ''Invalid status update payload''), s)
      | Some body \<Rightarrow>
     (case find (\<lambda>q. o_id q = orderId \<and> o_tenantId q = tenantId) (orders s) of
        None \<Rightarrow> (Response 404 (Message ''Order not found''), s)
      | Some ord \<Rightarrow>
     if \<not> canTransition (o_status ord) (su_status body)
     then (Response 409 (Message (''Invalid transition from '' @ statusName (o_status ord)
                                  @ '' to '' @ statusName (su_status body))), s)
     else if su_status body = Shipped \<and> \<not> truthy (su_trackingNumber body)
             \<and> \<not> truthy (o_trackingNumber ord)
     then (Response 400 (Message ''Tracking number is required when shipping an order''), s)
     else
       let ord' = statusUpdate now role body ord;
           saved = s\<lparr>orders := updateOne (\<lambda>q. o_id q = o_id ord) (\<lambda>_. ord') (orders s)\<rparr>;
           notified = (if su_status body = Paid \<or> su_status body = Shipped
                          \<or> su_status body = Delivered
                       then notifyCustomer e ord' (su_status body) (o_trackingNumber ord')
                              (statusNote body) saved
                       else saved)
       in (Response 200 (OrderView (o_id ord') (o_status ord') (o_trackingNumber ord')
                           (o_timeline ord')), notified)))"

fun carrierStatusName :: "carrier_status \<Rightarrow> string" where
  "carrierStatusName LabelCreated = ''label_created''"
| "carrierStatusName PickedUp = ''picked_up''"
| "carrierStatusName InTransit = ''in_transit''"
| "carrierStatusName OutForDelivery = ''out_for_delivery''"
| "carrierStatusName CarrierDelivered = ''delivered''"
| "carrierStatusName CarrierException = ''exception''"

record tracking_body =
  tb_provider :: string
  tb_externalTrackingId :: string
  tb_status :: carrier_status
  tb_location :: "string option"
  tb_message :: "string option"
  tb_eventAt :: "date option"

text \<open>
  What a carrier event in transit, out for delivery or delivered does to the order: the
  tracking number is the carrier's id, a delivered event sets the status to delivered,
  the other two move a processing or paid order to shipped, and one entry with the
  resulting status is pushed on the timeline.
\<close>

definition carrierUpdate :: "date \<Rightarrow> string option \<Rightarrow> tracking_body \<Rightarrow> order \<Rightarrow> order" where
  "carrierUpdate now role body ord =
     (let st = (if tb_status body = CarrierDelivered then Delivered
                else if o_status ord = Processing \<or> o_status ord = Paid then Shipped
                else o_status ord)
      in ord\<lparr>o_trackingNumber := Some (tb_externalTrackingId body),
             o_status := st,
             o_timeline := o_timeline ord @
               [\<lparr>ev_status = st,
                 ev_note = (case tb_message body of
                              None \<Rightarrow> ''Carrier update: '' @ carrierStatusName (tb_status body)
                            | Some m \<Rightarrow> m),
                 ev_trackingNumber = Some (tb_externalTrackingId body),
                 ev_actor = (case role of None \<Rightarrow> ''admin'' | Some r \<Rightarrow> r),
                 ev_at = now\<rparr>],
             o_updatedAt := now\<rparr>)"

text \<open>The handler of \<^verbatim>\<open>POST /orders/:id/tracking-events\<close>.\<close>

definition postTrackingEvent ::
  "date \<Rightarrow> objectId \<Rightarrow> objectId \<Rightarrow> objectId \<Rightarrow> string option \<Rightarrow> tracking_body option
     \<Rightarrow> db \<Rightarrow> http_response \<times> db" where
  "postTrackingEvent now newEventId tenantId orderId role parsed s =
     (case parsed of
        None \<Rightarrow> (Response 400 (Message ''Invalid tracking event payload''), s)
      | Some body \<Rightarrow>
     (case find (\<lambda>q. o_id q = orderId \<and> o_tenantId q = tenantId) (orders s) of
        None \<Rightarrow> (Response 404 (Message ''Order not found''), s)
      | Some ord \<Rightarrow>
     if list_ex (\<lambda>t. te_id t = newEventId) (trackingEvents s) then (Unhandled DuplicateKey, s)
     else
       let event = \<lparr>te_id = newEventId, te_tenantId = tenantId, te_orderId = orderId,
                    te_provider = tb_provider body,
                    te_externalTrackingId = tb_externalTrackingId body,
                    te_status = tb_status body, te_location = tb_location body,
                    te_message = tb_message body,
                    te_eventAt = (case tb_eventAt body of None \<Rightarrow> now | Some d \<Rightarrow> d)\<rparr>;
           created = s\<lparr>trackingEvents := trackingEvents s @ [event]\<rparr>
       in
         if (tb_status body = CarrierDelivered \<or> tb_status body = OutForDelivery
             \<or> tb_status body = InTransit) \<and> tb_externalTrackingId body \<noteq> []
         then (Response 201 (TrackingView newEventId),
               created\<lparr>orders := updateOne (\<lambda>q. o_id q = o_id ord)
                                   (\<lambda>_. carrierUpdate now role body ord) (orders s)\<rparr>)
         else (Response 201 (TrackingView newEventId), created)))"

section \<open>Sequences of operations\<close>

datatype operation =
  Finalize env date string metadata
  | AdminStatus env date objectId objectId "string option" "status_update_body option"
  | TrackingEvent date objectId objectId objectId "string option" "tracking_body option"
  | Checkout env gateway date string objectId objectId objectId objectId "checkout_body option"

fun step :: "operation \<Rightarrow> db \<Rightarrow> db" where
  "step (Finalize e now reference md) s = snd (finalizeSuccessfulPayment e now reference md s)"
| "step (AdminStatus e now tenantId orderId role parsed) s =
     snd (adminUpdateOrderStatus e now tenantId orderId role parsed s)"
| "step (TrackingEvent now newEventId tenantId orderId role parsed) s =
     snd (postTrackingEvent now newEventId tenantId orderId role parsed s)"
| "step (Checkout e gw now rnd newOrderId newPaymentId tenantId userId parsed) s =
     snd (checkoutInitialize e gw now rnd newOrderId newPaymentId tenantId userId parsed s)"

fun run :: "operation list \<Rightarrow> db \<Rightarrow> db" where
  "run [] s = s"
| "run (op # ops) s = run ops (step op s)"

section \<open>Example states\<close>

text \<open>
  The fixture of the integration test: one tenant, one product with two variants (stock 8
  and 2, price 15000), one customer whose cart holds one unit of the first variant, and
  the order and payment that checkout initiation creates for that cart.
\<close>

definition demo_env :: env where
  "demo_env = \<lparr>PAYSTACK_SECRET_KEY = Some ''sk_test_mock'',
               PAYSTACK_WEBHOOK_SECRET = None,
               REDIS_URL = Some ''redis://127.0.0.1:6379''\<rparr>"

definition demo_product :: product where
  "demo_product = \<lparr>pr_id = 10, pr_tenantId = 1, pr_name = ''Seye Red Dress'',
     pr_variants =
       [\<lparr>v_id = 100, v_sku = ''SRD-M-RED'', v_size = ''M'', v_color = ''Red'',
          v_stock = 8, v_priceNgn = 15000\<rparr>,
        \<lparr>v_id = 101, v_sku = ''SRD-L-RED'', v_size = ''L'', v_color = ''Red'',
          v_stock = 2, v_priceNgn = 15000\<rparr>],
     pr_updatedAt = 1000\<rparr>"

definition demo_user :: user where
  "demo_user = \<lparr>u_id = 7, u_email = ''ada@example.com'',
                u_firstName = Some ''Ada'', u_lastName = Some ''Seye''\<rparr>"

definition demo_cart :: cart where
  "demo_cart = \<lparr>c_id = 30, c_tenantId = 1, c_userId = Some 7, c_sessionId = None,
     c_lines = [\<lparr>cl_productId = 10, cl_variantId = 100, cl_name = ''Seye Red Dress'',
                 cl_quantity = 1, cl_unitPriceNgn = 15000\<rparr>],
     c_updatedAt = 1500\<rparr>"

definition demo_order :: order where
  "demo_order = \<lparr>o_id = 50, o_tenantId = 1, o_userId = 7, o_orderRef = ''SWS-2000'',
     o_status = Pending, o_currency = ''NGN'', o_subtotalNgn = Fin 15000,
     o_shippingNgn = Fin 2500, o_totalNgn = Fin 17500,
     o_shippingAddress = \<lparr>sa_address = ''12 Admiralty Way'', sa_city = ''Lagos'',
                           sa_state = ''Lagos''\<rparr>,
     o_trackingNumber = None, o_fulfillmentBranchId = None,
     o_lines = [\<lparr>ol_productId = 10, ol_variantId = 100, ol_name = ''Seye Red Dress'',
                 ol_quantity = 1, ol_unitPriceNgn = 15000\<rparr>],
     o_timeline = [\<lparr>ev_status = Pending,
                    ev_note = ''Order created and awaiting payment confirmation.'',
                    ev_trackingNumber = None, ev_actor = ''system'', ev_at = 2000\<rparr>],
     o_createdAt = 2000, o_updatedAt = 2000\<rparr>"

definition demo_payment :: payment where
  "demo_payment = \<lparr>p_id = 60, p_tenantId = 1, p_userId = 7, p_orderId = 50,
     p_provider = ''paystack'', p_providerRef = ''PAY-2000-K3J9QX'', p_status = Initialized,
     p_amountNgn = Fin 17500, p_currency = ''NGN'', p_initializedAt = 2000, p_verifiedAt = None,
     p_metadata = [(''accessCode'', Some ''access_code_mock''),
                   (''authorizationUrl'', Some ''https://paystack.test/authorize/PAY-2000-K3J9QX'')],
     p_createdAt = 2000, p_updatedAt = 2000\<rparr>"

definition demo_db :: db where
  "demo_db = \<lparr>payments = [demo_payment], orders = [demo_order], products = [demo_product],
              carts = [demo_cart], users = [demo_user], addresses = [], trackingEvents = [],
              queue = []\<rparr>"

text \<open>
  The same state after the gateway's webhook confirmed the payment at time 4000: what the
  integration test expects (payment confirmed, order paid, stock 7, cart empty) and one
  notification on the queue.
\<close>

definition demo_md :: metadata where
  "demo_md = [(''source'', Some ''webhook''), (''gatewayResponse'', Some ''Approved''),
              (''paidAt'', Some ''2026-02-27T10:00:00.000Z'')]"

definition demo_paid_payment :: payment where
  "demo_paid_payment = demo_payment\<lparr>p_status := Success, p_verifiedAt := Some 4000,
     p_metadata := [(''accessCode'', Some ''access_code_mock''),
                    (''authorizationUrl'', Some ''https://paystack.test/authorize/PAY-2000-K3J9QX''),
                    (''source'', Some ''webhook''), (''gatewayResponse'', Some ''Approved''),
                    (''paidAt'', Some ''2026-02-27T10:00:00.000Z'')],
     p_updatedAt := 4000\<rparr>"

definition demo_paid_order :: order where
  "demo_paid_order = demo_order\<lparr>o_status := Paid,
     o_timeline := o_timeline demo_order @
       [\<lparr>ev_status = Paid, ev_note = ''Payment confirmed.'', ev_trackingNumber = None,
         ev_actor = ''system'', ev_at = 4000\<rparr>],
     o_updatedAt := 4000\<rparr>"

definition demo_paid_db :: db where
  "demo_paid_db = \<lparr>payments = [demo_paid_payment], orders = [demo_paid_order],
     products = [demo_product\<lparr>pr_variants :=
        [\<lparr>v_id = 100, v_sku = ''SRD-M-RED'', v_size = ''M'', v_color = ''Red'',
          v_stock = 7, v_priceNgn = 15000\<rparr>,
        \<lparr>v_id = 101, v_sku = ''SRD-L-RED'', v_size = ''L'', v_color = ''Red'',
          v_stock = 2, v_priceNgn = 15000\<rparr>], pr_updatedAt := 4000\<rparr>],
     carts = [demo_cart\<lparr>c_lines := [], c_updatedAt := 4000\<rparr>],
     users = [demo_user], addresses = [], trackingEvents = [],
     queue = [\<lparr>n_tenantId = 1, n_userId = 7, n_email = ''ada@example.com'',
               n_customerName = ''Ada Seye'', n_orderId = 50, n_orderRef = ''SWS-2000'',
               n_status = Paid, n_trackingNumber = None, n_note = ''Payment confirmed.''\<rparr>]\<rparr>"

text \<open>The gateway of the test double: it accepts every request.\<close>

definition demo_gateway :: gateway where
  "demo_gateway payload =
     Some \<lparr>authorization_url = ''https://paystack.test/authorize/'' @ pi_reference payload,
           access_code = ''access_code_mock''\<rparr>"

text \<open>
  A product whose first variant is sold out while its second is not, and an order for
  five units of the first variant.
\<close>

definition soldout_product :: product where
  "soldout_product = \<lparr>pr_id = 11, pr_tenantId = 1, pr_name = ''Seye Blue Dress'',
     pr_variants =
       [\<lparr>v_id = 200, v_sku = ''SBD-M-BLU'', v_size = ''M'', v_color = ''Blue'',
          v_stock = 0, v_priceNgn = 15000\<rparr>,
        \<lparr>v_id = 201, v_sku = ''SBD-L-BLU'', v_size = ''L'', v_color = ''Blue'',
          v_stock = 10, v_priceNgn = 15000\<rparr>],
     pr_updatedAt = 1000\<rparr>"

definition soldout_order :: order where
  "soldout_order = demo_order\<lparr>o_id := 51, o_orderRef := ''SWS-2001'',
     o_subtotalNgn := Fin 75000, o_totalNgn := Fin 77500,
     o_lines := [\<lparr>ol_productId = 11, ol_variantId = 200, ol_name = ''Seye Blue Dress'',
                  ol_quantity = 5, ol_unitPriceNgn = 15000\<rparr>]\<rparr>"

definition soldout_payment :: payment where
  "soldout_payment = demo_payment\<lparr>p_id := 61, p_orderId := 51,
     p_providerRef := ''PAY-2001-ZZ11ZZ'', p_amountNgn := Fin 77500\<rparr>"

definition soldout_db :: db where
  "soldout_db = \<lparr>payments = [soldout_payment], orders = [soldout_order],
                 products = [soldout_product], carts = [], users = [demo_user],
                 addresses = [], trackingEvents = [], queue = []\<rparr>"

text \<open>Two tenants, each with a customer whose cart is not empty, before any checkout.\<close>

definition two_tenants_db :: db where
  "two_tenants_db = \<lparr>payments = [], orders = [], products = [demo_product],
     carts = [demo_cart, demo_cart\<lparr>c_id := 31, c_tenantId := 2, c_userId := Some 8\<rparr>],
     users = [demo_user], addresses = [], trackingEvents = [], queue = []\<rparr>"

definition inline_address :: checkout_body where
  "inline_address = \<lparr>cb_email = ''ada@example.com'', cb_addressId = NoAddressId,
     cb_shippingAddress = Some ''12 Admiralty Way'', cb_city = Some ''Lagos'',
     cb_state = Some ''Lagos''\<rparr>"

text \<open>
  The second tenant's customer checks out in the same millisecond and draws the same
  random suffix: the order and payment this creates, and the state with both pairs.
\<close>

definition tenant2_order :: order where
  "tenant2_order = demo_order\<lparr>o_id := 52, o_tenantId := 2, o_userId := 8\<rparr>"

definition tenant2_payment :: payment where
  "tenant2_payment = demo_payment\<lparr>p_id := 62, p_tenantId := 2, p_userId := 8, p_orderId := 52\<rparr>"

definition collided_db :: db where
  "collided_db = two_tenants_db\<lparr>orders := [demo_order, tenant2_order],
                                payments := [demo_payment, tenant2_payment]\<rparr>"

text \<open>The life of the fixture's order: paid, shipped by an admin, delivered by the carrier.\<close>

definition demo_ops :: "operation list" where
  "demo_ops =
     [Finalize demo_env 4000 ''PAY-2000-K3J9QX'' demo_md,
      AdminStatus demo_env 6000 1 50 (Some ''admin'')
        (Some \<lparr>su_status = Shipped, su_trackingNumber = Some ''DHL-TRACK-001'',
               su_note = Some ''Dispatched to courier''\<rparr>),
      TrackingEvent 7000 70 1 50 (Some ''admin'')
        (Some \<lparr>tb_provider = ''dhl'', tb_externalTrackingId = ''DHL-TRACK-001'',
               tb_status = CarrierDelivered, tb_location = None, tb_message = None,
               tb_eventAt = None\<rparr>)]"

text \<open>An environment with a webhook secret, and the payload of a confirmed charge.\<close>

definition signed_env :: env where
  "signed_env = demo_env\<lparr>PAYSTACK_WEBHOOK_SECRET := Some ''whsec_test''\<rparr>"

definition charge_success :: "string \<Rightarrow> webhook_payload" where
  "charge_success reference = \<lparr>wp_event = Some ''charge.success'',
     wp_data = Some \<lparr>wd_reference = Some reference, wd_gateway_response = Some ''Approved'',
                     wd_paid_at = Some ''2026-02-27T10:00:00.000Z''\<rparr>\<rparr>"

text \<open>A stand-in for the digest: any function of secret and body will do.\<close>

definition demo_hmac :: "string \<Rightarrow> string \<Rightarrow> string" where
  "demo_hmac secret body = secret @ body"

section \<open>Properties\<close>

subsection \<open>The store\<close>

lemma find_updateOne_replaced:
  "find R xs = Some p \<Longrightarrow> R p' \<Longrightarrow> M p \<Longrightarrow> find R (updateOne M (\<lambda>_. p') xs) = Some p'"
  by (induction xs) (auto split: if_splits)

lemma map_updateOne_key:
  "(\<And>x. M x \<Longrightarrow> g (f x) = g x) \<Longrightarrow> map g (updateOne M f xs) = map g xs"
  by (induction xs) auto

lemma find_Some_set: "find P xs = Some x \<Longrightarrow> x \<in> set xs \<and> P x"
  by (induction xs) (auto split: if_splits)

lemma notifyCustomer_frame:
  "payments (notifyCustomer e ord st tr note s) = payments s"
  "orders (notifyCustomer e ord st tr note s) = orders s"
  "products (notifyCustomer e ord st tr note s) = products s"
  "carts (notifyCustomer e ord st tr note s) = carts s"
  "users (notifyCustomer e ord st tr note s) = users s"
  "addresses (notifyCustomer e ord st tr note s) = addresses s"
  "trackingEvents (notifyCustomer e ord st tr note s) = trackingEvents s"
  by (simp_all add: notifyCustomer_def split: option.splits)

subsection \<open>Finalize, case by case\<close>

text \<open>
  The five ways a call of finalize ends: unknown reference, missing order, replay of a
  payment already confirmed, a stock update that modifies nothing, and commit.
\<close>

lemma finalize_outcomes:
  "finalizeSuccessfulPayment e now reference md s = (res, s') \<Longrightarrow>
   (res = Inl PaymentReferenceNotFound \<and> s' = s
      \<and> find (\<lambda>p. p_providerRef p = reference) (payments s) = None)
   \<or> (\<exists>pay. res = Inl OrderNotFoundForPayment \<and> s' = s
      \<and> find (\<lambda>p. p_providerRef p = reference) (payments s) = Some pay
      \<and> find (\<lambda>q. o_id q = p_orderId pay) (orders s) = None)
   \<or> (\<exists>pay ord. res = Inr \<lparr>r_payment = pay, r_order = ord, r_idempotent = True\<rparr> \<and> s' = s
      \<and> find (\<lambda>p. p_providerRef p = reference) (payments s) = Some pay
      \<and> find (\<lambda>q. o_id q = p_orderId pay) (orders s) = Some ord
      \<and> p_status pay = Success)
   \<or> (\<exists>pay ord err. res = Inl err \<and> s' = s
      \<and> find (\<lambda>p. p_providerRef p = reference) (payments s) = Some pay
      \<and> find (\<lambda>q. o_id q = p_orderId pay) (orders s) = Some ord
      \<and> p_status pay \<noteq> Success
      \<and> decrementLines (o_tenantId ord) now (o_lines ord) (products s) = Inl err)
   \<or> (\<exists>pay ord ps pay' ord'.
        find (\<lambda>p. p_providerRef p = reference) (payments s) = Some pay
      \<and> find (\<lambda>q. o_id q = p_orderId pay) (orders s) = Some ord
      \<and> p_status pay \<noteq> Success
      \<and> decrementLines (o_tenantId ord) now (o_lines ord) (products s) = Inr ps
      \<and> pay' = pay\<lparr>p_status := Success, p_verifiedAt := Some now,
                      p_metadata := spread (p_metadata pay) md, p_updatedAt := now\<rparr>
      \<and> ord' = ord\<lparr>o_status := Paid,
                     o_timeline := o_timeline ord @
                       [\<lparr>ev_status = Paid, ev_note = ''Payment confirmed.'',
                         ev_trackingNumber = None, ev_actor = ''system'', ev_at = now\<rparr>],
                     o_updatedAt := now\<rparr>
      \<and> res = Inr \<lparr>r_payment = pay', r_order = ord', r_idempotent = False\<rparr>
      \<and> s' = notifyCustomer e ord' Paid None ''Payment confirmed.''
             (s\<lparr>payments := updateOne (\<lambda>q. p_id q = p_id pay)
                              (\<lambda>_. storedPayment pay') (payments s),
                orders := updateOne (\<lambda>q. o_id q = o_id ord) (\<lambda>_. ord') (orders s),
                products := ps,
                carts := updateOne
                  (\<lambda>c. c_tenantId c = o_tenantId ord \<and> c_userId c = Some (o_userId ord))
                  (\<lambda>c. c\<lparr>c_lines := [], c_updatedAt := now\<rparr>) (carts s)\<rparr>))"
  unfolding finalizeSuccessfulPayment_def Let_def
  by (auto split: option.splits sum.splits if_splits)

lemma finalize_failure_rolls_back:
  "finalizeSuccessfulPayment e now reference md s = (Inl err, s') \<Longrightarrow> s' = s"
  by (drule finalize_outcomes) auto

lemma finalize_errors:
  "finalizeSuccessfulPayment e now reference md s = (Inl err, s') \<Longrightarrow>
     err = PaymentReferenceNotFound \<or> err = OrderNotFoundForPayment
     \<or> (\<exists>pid. err = FailedToDecrementStock pid)"
proof -
  have dec: "decrementLines t now ls ps = Inl err \<Longrightarrow> \<exists>pid. err = FailedToDecrementStock pid"
    for t ls ps
    by (induction ls arbitrary: ps) (auto simp: Let_def split: if_splits)
  assume "finalizeSuccessfulPayment e now reference md s = (Inl err, s')"
  from finalize_outcomes [OF this] dec show ?thesis by blast
qed

subsection \<open>Which messages include "not found"\<close>

lemma hexDigit_not_n: "d < 16 \<Longrightarrow> hexDigit d \<noteq> CHR ''n''"
proof
  assume d: "d < 16" and eq: "hexDigit d = CHR ''n''"
  then have "of_char (hexDigit d) = (110::nat)" by simp
  with d show False
    by (auto simp: hexDigit_def split: if_splits)
qed

lemma toHexString_no_n: "CHR ''n'' \<notin> set (toHexString k)"
proof (induction k rule: toHexString.induct)
  case (1 n)
  show ?case
  proof (cases "n < 16")
    case True
    then show ?thesis using hexDigit_not_n [of n]
      by (subst toHexString.simps) auto
  next
    case False
    with 1 hexDigit_not_n [of "n mod 16"] show ?thesis
      by (subst toHexString.simps) auto
  qed
qed

lemma includes_absent_head: "c \<notin> set xs \<Longrightarrow> \<not> includesString xs (c # sub)"
  by (induction xs) auto

lemma includes_not_found:
  "includesString (errorMessage PaymentReferenceNotFound) ''not found''"
  "includesString (errorMessage OrderNotFoundForPayment) ''not found''"
  "\<not> includesString (errorMessage (FailedToDecrementStock pid)) ''not found''"
  using includes_absent_head [OF toHexString_no_n, of pid]
  by simp_all

text \<open>The model run on the test fixture gives the state the test expects.\<close>

lemmas demo_defs = demo_env_def demo_product_def demo_user_def demo_cart_def demo_order_def
  demo_payment_def demo_db_def demo_md_def demo_paid_payment_def demo_paid_order_def demo_paid_db_def
  soldout_product_def soldout_order_def soldout_payment_def soldout_db_def

lemma finalize_demo:
  "finalizeSuccessfulPayment demo_env 4000 ''PAY-2000-K3J9QX'' demo_md demo_db
     = (Inr \<lparr>r_payment = demo_paid_payment, r_order = demo_paid_order, r_idempotent = False\<rparr>,
        demo_paid_db)"
  by (simp add: finalizeSuccessfulPayment_def demo_defs Let_def stockFilter_def
        incPositionalStock_def notifyCustomer_def enqueueOrderStatusNotification_def
        spread_def omitUndefined_def storedPayment_def trim_def isSpace_def)

subsection \<open>Cart totals\<close>

lemma excessBits_small: "n < 2 ^ 53 \<Longrightarrow> excessBits n = 0"
  by (simp add: excessBits.simps)

lemma roundMagnitude_safe: "n \<le> 2 ^ 53 \<Longrightarrow> roundMagnitude n = n"
proof (cases "n < 2 ^ 53")
  case True
  then show ?thesis by (simp add: roundMagnitude_def excessBits_small)
next
  case False
  assume "n \<le> 2 ^ 53"
  with False have n: "n = 2 ^ 53" by simp
  have "excessBits (2 ^ 53) = Suc 0"
    by (subst excessBits.simps) (simp add: excessBits_small)
  then show ?thesis by (simp add: roundMagnitude_def n)
qed

text \<open>Up to \<open>2 ^ 53\<close> in magnitude every integer is a double.\<close>

lemma toDouble_safe: "\<bar>x\<bar> \<le> 2 ^ 53 \<Longrightarrow> toDouble x = Fin x"
proof -
  assume a: "\<bar>x\<bar> \<le> 2 ^ 53"
  then have small: "nat \<bar>x\<bar> \<le> 2 ^ 53" by (simp add: nat_le_iff)
  then have r: "roundMagnitude (nat \<bar>x\<bar>) = nat \<bar>x\<bar>" by (rule roundMagnitude_safe)
  have "(2::nat) ^ 53 < 2 ^ 1024" by simp
  with small have "\<not> nat \<bar>x\<bar> \<ge> 2 ^ 1024" by linarith
  with r show ?thesis by (auto simp: toDouble_def Let_def)
qed






subsection \<open>Order status transitions\<close>





subsection \<open>Finalize is idempotent\<close>

text \<open>
  C1. When the reference resolves to a payment whose status is already success, and the
  order that payment belongs to exists, finalize returns that payment and that order with
  idempotent = true and the state after the call is the state before it: payments,
  orders, stock, carts, timelines and the notification queue are the same. Hence after
  any call of finalize that returned, a second call with the same reference, whatever
  clock, environment or metadata, returns idempotent = true and leaves the state as the
  first call left it; it returns the order of the first call, and the payment of the first
  call as the store keeps it.
\<close>

theorem finalize_idempotent:
  "(find (\<lambda>p. p_providerRef p = reference) (payments s) = Some pay \<and> p_status pay = Success
     \<and> find (\<lambda>q. o_id q = p_orderId pay) (orders s) = Some ord
    \<longrightarrow> finalizeSuccessfulPayment e now reference md s
          = (Inr \<lparr>r_payment = pay, r_order = ord, r_idempotent = True\<rparr>, s))
   \<and> (finalizeSuccessfulPayment e now reference md s = (Inr r, s1)
    \<longrightarrow> (\<exists>r'. finalizeSuccessfulPayment e' now' reference md' s1 = (Inr r', s1)
              \<and> r_idempotent r'
              \<and> r_payment r' = (if r_idempotent r then r_payment r
                                 else storedPayment (r_payment r))
              \<and> r_order r' = r_order r))"
proof (intro conjI impI)
  assume "find (\<lambda>p. p_providerRef p = reference) (payments s) = Some pay \<and> p_status pay = Success
     \<and> find (\<lambda>q. o_id q = p_orderId pay) (orders s) = Some ord"
  then show "finalizeSuccessfulPayment e now reference md s
          = (Inr \<lparr>r_payment = pay, r_order = ord, r_idempotent = True\<rparr>, s)"
    by (simp add: finalizeSuccessfulPayment_def)
next
  assume first: "finalizeSuccessfulPayment e now reference md s = (Inr r, s1)"
  have replay: "finalizeSuccessfulPayment e' now' reference md' t
          = (Inr \<lparr>r_payment = p, r_order = q, r_idempotent = True\<rparr>, t)"
    if "find (\<lambda>p. p_providerRef p = reference) (payments t) = Some p" "p_status p = Success"
       "find (\<lambda>q. o_id q = p_orderId p) (orders t) = Some q" for t p q
    using that by (simp add: finalizeSuccessfulPayment_def)
  from finalize_outcomes [OF first]
  consider
    (replayed) pay ord where "r = \<lparr>r_payment = pay, r_order = ord, r_idempotent = True\<rparr>" "s1 = s"
      "find (\<lambda>p. p_providerRef p = reference) (payments s) = Some pay"
      "find (\<lambda>q. o_id q = p_orderId pay) (orders s) = Some ord" "p_status pay = Success"
  | (committed) pay ord ps pay' ord' where
      "find (\<lambda>p. p_providerRef p = reference) (payments s) = Some pay"
      "find (\<lambda>q. o_id q = p_orderId pay) (orders s) = Some ord"
      "pay' = pay\<lparr>p_status := Success, p_verifiedAt := Some now,
                      p_metadata := spread (p_metadata pay) md, p_updatedAt := now\<rparr>"
      "ord' = ord\<lparr>o_status := Paid,
                     o_timeline := o_timeline ord @
                       [\<lparr>ev_status = Paid, ev_note = ''Payment confirmed.'',
                         ev_trackingNumber = None, ev_actor = ''system'', ev_at = now\<rparr>],
                     o_updatedAt := now\<rparr>"
      "r = \<lparr>r_payment = pay', r_order = ord', r_idempotent = False\<rparr>"
      "s1 = notifyCustomer e ord' Paid None ''Payment confirmed.''
             (s\<lparr>payments := updateOne (\<lambda>q. p_id q = p_id pay)
                              (\<lambda>_. storedPayment pay') (payments s),
                orders := updateOne (\<lambda>q. o_id q = o_id ord) (\<lambda>_. ord') (orders s),
                products := ps,
                carts := updateOne
                  (\<lambda>c. c_tenantId c = o_tenantId ord \<and> c_userId c = Some (o_userId ord))
                  (\<lambda>c. c\<lparr>c_lines := [], c_updatedAt := now\<rparr>) (carts s)\<rparr>)"
    by blast
  then show "\<exists>r'. finalizeSuccessfulPayment e' now' reference md' s1 = (Inr r', s1)
              \<and> r_idempotent r'
              \<and> r_payment r' = (if r_idempotent r then r_payment r
                                 else storedPayment (r_payment r))
              \<and> r_order r' = r_order r"
  proof cases
    case replayed
    from replay [of s pay ord] replayed show ?thesis by simp
  next
    case committed
    from find_Some_set [OF committed(1)] have ref: "p_providerRef pay = reference" by simp
    from find_Some_set [OF committed(2)] have oid: "o_id ord = p_orderId pay" by simp
    have p1: "find (\<lambda>p. p_providerRef p = reference) (payments s1) = Some (storedPayment pay')"
      using find_updateOne_replaced [OF committed(1), of "storedPayment pay'"
              "\<lambda>q. p_id q = p_id pay"] ref
      by (simp add: committed(3,6) notifyCustomer_frame storedPayment_def)
    have o1: "find (\<lambda>q. o_id q = p_orderId (storedPayment pay')) (orders s1) = Some ord'"
      using find_updateOne_replaced [OF committed(2), of ord' "\<lambda>q. o_id q = o_id ord"] oid
      by (simp add: committed(3,4,6) notifyCustomer_frame storedPayment_def)
    have "p_status (storedPayment pay') = Success"
      by (simp add: committed(3) storedPayment_def)
    from replay [OF p1 this o1] committed(5) show ?thesis by simp
  qed
qed

theorem finalize_idempotent_witness:
  "finalizeSuccessfulPayment demo_env 5000 ''PAY-2000-K3J9QX'' demo_md demo_paid_db
     = (Inr \<lparr>r_payment = demo_paid_payment, r_order = demo_paid_order, r_idempotent = True\<rparr>,
        demo_paid_db)"
proof -
  have hyp: "find (\<lambda>p. p_providerRef p = ''PAY-2000-K3J9QX'') (payments demo_paid_db)
               = Some demo_paid_payment \<and> p_status demo_paid_payment = Success
             \<and> find (\<lambda>q. o_id q = p_orderId demo_paid_payment) (orders demo_paid_db)
               = Some demo_paid_order"
    by (simp add: demo_defs)
  from finalize_idempotent [of "''PAY-2000-K3J9QX''" demo_paid_db demo_paid_payment demo_paid_order
             demo_env 5000 demo_md, THEN conjunct1] hyp
  have a: "finalizeSuccessfulPayment demo_env 5000 ''PAY-2000-K3J9QX'' demo_md demo_paid_db
     = (Inr \<lparr>r_payment = demo_paid_payment, r_order = demo_paid_order, r_idempotent = True\<rparr>,
        demo_paid_db)"
    by blast
  from finalize_idempotent [of "''PAY-2000-K3J9QX''" demo_db _ _ demo_env 4000 demo_md
             "\<lparr>r_payment = demo_paid_payment, r_order = demo_paid_order, r_idempotent = False\<rparr>"
             demo_paid_db demo_env 5000 demo_md, THEN conjunct2] finalize_demo
  have b: "\<exists>r'. finalizeSuccessfulPayment demo_env 5000 ''PAY-2000-K3J9QX'' demo_md demo_paid_db
               = (Inr r', demo_paid_db) \<and> r_idempotent r'
               \<and> r_payment r' = storedPayment demo_paid_payment
               \<and> r_order r' = demo_paid_order"
    by simp
  from a b show ?thesis by blast
qed

subsection \<open>Finalize clears the cart\<close>

text \<open>
  C10 as stated says that no cart field other than the lines changes. The cart schema is
  declared with \<^verbatim>\<open>timestamps: true\<close>, so \<^verbatim>\<open>CartModel.updateOne\<close> also sets
  \<^verbatim>\<open>updatedAt\<close>: after the fixture's finalize the cart is not the old cart with only
  its lines emptied, its \<^verbatim>\<open>updatedAt\<close> has moved from 1500 to the time of the call.
\<close>

theorem finalize_cart_updatedAt_counterexample:
  "carts (snd (finalizeSuccessfulPayment demo_env 4000 ''PAY-2000-K3J9QX'' demo_md demo_db))
     = [demo_cart\<lparr>c_lines := [], c_updatedAt := 4000\<rparr>]
   \<and> demo_cart\<lparr>c_lines := [], c_updatedAt := 4000\<rparr> \<noteq> demo_cart\<lparr>c_lines := []\<rparr>
   \<and> c_updatedAt demo_cart = 1500"
  by (simp add: finalize_demo) (simp add: demo_defs)

text \<open>
  C10, amended. When finalize commits, the carts are the carts before the call with the
  first cart of the order's tenant and customer updated, its lines set to the empty list
  and its \<^verbatim>\<open>updatedAt\<close> set to the time of the call, every other field of that cart
  and every other cart as before. So every line of that cart is removed, whether or not
  it is a line of the order, and no cart is deleted or added.
\<close>

theorem finalize_clears_cart:
  assumes "finalizeSuccessfulPayment e now reference md s = (Inr r, s')" and "\<not> r_idempotent r"
  shows "carts s' = updateOne
           (\<lambda>c. c_tenantId c = o_tenantId (r_order r) \<and> c_userId c = Some (o_userId (r_order r)))
           (\<lambda>c. c\<lparr>c_lines := [], c_updatedAt := now\<rparr>) (carts s)
       \<and> map c_id (carts s') = map c_id (carts s)
       \<and> (find (\<lambda>c. c_tenantId c = o_tenantId (r_order r) \<and> c_userId c = Some (o_userId (r_order r)))
               (carts s) = Some c
            \<longrightarrow> find (\<lambda>c. c_tenantId c = o_tenantId (r_order r) \<and> c_userId c = Some (o_userId (r_order r)))
               (carts s') = Some (c\<lparr>c_lines := [], c_updatedAt := now\<rparr>))"
proof -
  from finalize_outcomes [OF assms(1)] assms(2)
  have upd: "carts s' = updateOne
           (\<lambda>c. c_tenantId c = o_tenantId (r_order r) \<and> c_userId c = Some (o_userId (r_order r)))
           (\<lambda>c. c\<lparr>c_lines := [], c_updatedAt := now\<rparr>) (carts s)"
    by (auto simp: notifyCustomer_frame)
  have ids: "map c_id (carts s') = map c_id (carts s)"
    unfolding upd by (rule map_updateOne_key) simp
  have hit: "find M (updateOne M f xs) = Some (f c)"
    if "find M xs = Some c" "\<And>x. M x \<Longrightarrow> M (f x)" for M and f :: "cart \<Rightarrow> cart" and xs c
    using that by (induction xs) (auto split: if_splits)
  show ?thesis
    using upd ids hit by simp
qed

theorem finalize_clears_cart_witness:
  "carts demo_paid_db =
     updateOne (\<lambda>c. c_tenantId c = 1 \<and> c_userId c = Some 7)
       (\<lambda>c. c\<lparr>c_lines := [], c_updatedAt := 4000\<rparr>) (carts demo_db)
   \<and> map c_id (carts demo_paid_db) = map c_id (carts demo_db)
   \<and> find (\<lambda>c. c_tenantId c = 1 \<and> c_userId c = Some 7) (carts demo_paid_db)
       = Some (demo_cart\<lparr>c_lines := [], c_updatedAt := 4000\<rparr>)"
proof -
  have committed: "\<not> r_idempotent
     \<lparr>r_payment = demo_paid_payment, r_order = demo_paid_order, r_idempotent = False\<rparr>"
    by simp
  have found: "find (\<lambda>c. c_tenantId c = 1 \<and> c_userId c = Some 7) (carts demo_db) = Some demo_cart"
    by (simp add: demo_defs)
  have who: "o_tenantId demo_paid_order = 1" "o_userId demo_paid_order = 7"
    by (simp_all add: demo_defs)
  note cleared = finalize_clears_cart [OF finalize_demo committed, of demo_cart,
      unfolded finalize_result.select_convs who]
  from cleared found show ?thesis
    by blast
qed


subsection \<open>The stock update of finalize\<close>

text \<open>
  C2, evaluated. The order asks for five units of variant 200, which has none; variant
  201 of the same product has ten. The filter of the stock update is satisfied, by
  variant 200 for the id and by variant 201 for the stock, so the update modifies one
  document and nothing throws: finalize commits, the payment is success and the order
  paid, and the five units are taken from variant 201.
\<close>

theorem finalize_soldout_variant_commits:
  "map (\<lambda>v. (v_id v, v_stock v)) (pr_variants soldout_product) = [(200, 0), (201, 10)]
   \<and> map (\<lambda>l. (ol_productId l, ol_variantId l, ol_quantity l)) (o_lines soldout_order)
       = [(11, 200, 5)]
   \<and> (case finalizeSuccessfulPayment demo_env 4000 ''PAY-2001-ZZ11ZZ'' [] soldout_db of
        (Inr r, s') \<Rightarrow> \<not> r_idempotent r
           \<and> map p_status (payments s') = [Success]
           \<and> map o_status (orders s') = [Paid]
           \<and> map (\<lambda>p. map (\<lambda>v. (v_id v, v_stock v)) (pr_variants p)) (products s')
               = [[(200, 0), (201, 5)]]
      | (Inl err, s') \<Rightarrow> False)"
  by (simp add: finalizeSuccessfulPayment_def demo_defs Let_def stockFilter_def
        incPositionalStock_def notifyCustomer_def enqueueOrderStatusNotification_def
        spread_def omitUndefined_def storedPayment_def trim_def isSpace_def)

subsection \<open>Webhook\<close>

text \<open>
  C4. The signature check returns true exactly when no webhook secret is configured
  (absent or empty) or the signature header is the hexadecimal HMAC-SHA512 of the raw
  body under the secret. When it returns false the webhook answers 401 and the state is
  unchanged, whatever the payload says.
\<close>

theorem webhook_signature_gate:
  "verifyPaystackWebhookSignature h e rawBody signature
     = (\<not> truthy (PAYSTACK_WEBHOOK_SECRET e)
        \<or> signature = Some (h (orEmpty (PAYSTACK_WEBHOOK_SECRET e)) rawBody))
   \<and> (\<not> verifyPaystackWebhookSignature h e (wr_rawBody req) (wr_signature req)
        \<longrightarrow> paystackWebhook h e now req s
              = (Response 401 (Message ''Invalid webhook signature''), s))"
  by (auto simp: verifyPaystackWebhookSignature_def paystackWebhook_def)

theorem webhook_signature_gate_witness:
  "\<not> verifyPaystackWebhookSignature demo_hmac signed_env ''{}'' (Some ''forged'')
   \<and> verifyPaystackWebhookSignature demo_hmac signed_env ''{}'' (Some ''whsec_test{}'')
   \<and> verifyPaystackWebhookSignature demo_hmac demo_env ''{}'' None
   \<and> paystackWebhook demo_hmac signed_env 4000
        \<lparr>wr_signature = Some ''forged'', wr_rawBody = ''{}'',
         wr_payload = Some (charge_success ''PAY-2000-K3J9QX'')\<rparr> demo_db
       = (Response 401 (Message ''Invalid webhook signature''), demo_db)"
proof -
  have secret: "truthy (PAYSTACK_WEBHOOK_SECRET signed_env)"
       "orEmpty (PAYSTACK_WEBHOOK_SECRET signed_env) = ''whsec_test''"
       "\<not> truthy (PAYSTACK_WEBHOOK_SECRET demo_env)"
    by (simp_all add: signed_env_def demo_env_def)
  from webhook_signature_gate [of demo_hmac signed_env "''{}''" "Some ''forged''"
      "\<lparr>wr_signature = Some ''forged'', wr_rawBody = ''{}'',
         wr_payload = Some (charge_success ''PAY-2000-K3J9QX'')\<rparr>" 4000 demo_db]
  have forged: "\<not> verifyPaystackWebhookSignature demo_hmac signed_env ''{}'' (Some ''forged'')
     \<and> paystackWebhook demo_hmac signed_env 4000
        \<lparr>wr_signature = Some ''forged'', wr_rawBody = ''{}'',
         wr_payload = Some (charge_success ''PAY-2000-K3J9QX'')\<rparr> demo_db
       = (Response 401 (Message ''Invalid webhook signature''), demo_db)"
    by (simp add: secret demo_hmac_def)
  from webhook_signature_gate [of demo_hmac signed_env "''{}''" "Some ''whsec_test{}''"]
  have genuine: "verifyPaystackWebhookSignature demo_hmac signed_env ''{}'' (Some ''whsec_test{}'')"
    by (simp add: secret demo_hmac_def)
  from webhook_signature_gate [of demo_hmac demo_env "''{}''" None]
  have permissive: "verifyPaystackWebhookSignature demo_hmac demo_env ''{}'' None"
    by (simp add: secret)
  from forged genuine permissive show ?thesis by blast
qed

text \<open>
  C7 as stated says that every well-formed, authenticated webhook is answered 200. A
  correctly signed \<^verbatim>\<open>charge.success\<close> webhook is answered 404 when the reference is
  unknown, and 500 when the stock update of finalize fails (here the product is gone).
\<close>

theorem webhook_not_always_200_counterexample:
  "verifyPaystackWebhookSignature demo_hmac signed_env ''{}'' (Some ''whsec_test{}'')
   \<and> paystackWebhook demo_hmac signed_env 4000
        \<lparr>wr_signature = Some ''whsec_test{}'', wr_rawBody = ''{}'',
         wr_payload = Some (charge_success ''PAY-0-UNKNOWN'')\<rparr> demo_db
       = (Response 404 (Message ''Payment reference not found''), demo_db)
   \<and> fst (paystackWebhook demo_hmac signed_env 4000
        \<lparr>wr_signature = Some ''whsec_test{}'', wr_rawBody = ''{}'',
         wr_payload = Some (charge_success ''PAY-2000-K3J9QX'')\<rparr> (demo_db\<lparr>products := []\<rparr>))
       = Response 500 (Detail (''Failed to decrement stock for product '' @ toHexString 10))"
  using includes_not_found(3) [of 10]
  by (simp add: paystackWebhook_def verifyPaystackWebhookSignature_def charge_success_def
      dataField_def finalizeSuccessfulPayment_def demo_defs signed_env_def demo_hmac_def Let_def)

text \<open>
  C7, amended. For every authenticated webhook request whose body parses, the status is
  200 when the event is not \<^verbatim>\<open>charge.success\<close> and when finalize returns, a replay of a
  reference already finalized included; it is 400 when a \<^verbatim>\<open>charge.success\<close> event
  carries no reference, 404 when finalize finds no payment for the reference or no order
  for the payment, and 500 when a stock update of finalize fails.
\<close>

theorem webhook_status:
  assumes "verifyPaystackWebhookSignature h e (wr_rawBody req) (wr_signature req)"
      and "wr_payload req = Some pl"
  shows "fst (paystackWebhook h e now req s) =
     (if wp_event pl \<noteq> Some ''charge.success'' then Response 200 (Acknowledged None)
      else if \<not> truthy (dataField wd_reference pl)
      then Response 400 (Message ''Missing payment reference'')
      else case fst (finalizeSuccessfulPayment e now (orEmpty (dataField wd_reference pl))
                    [(''source'', Some ''webhook''),
                     (''gatewayResponse'', dataField wd_gateway_response pl),
                     (''paidAt'', dataField wd_paid_at pl)] s) of
             Inr result \<Rightarrow> Response 200 (Acknowledged (Some (r_idempotent result)))
           | Inl err \<Rightarrow>
               if err = PaymentReferenceNotFound \<or> err = OrderNotFoundForPayment
               then Response 404 (Message (errorMessage err))
               else Response 500 (Detail (errorMessage err)))"
proof -
  obtain res s' where fin:
    "finalizeSuccessfulPayment e now (orEmpty (dataField wd_reference pl))
        [(''source'', Some ''webhook''),
         (''gatewayResponse'', dataField wd_gateway_response pl),
         (''paidAt'', dataField wd_paid_at pl)] s = (res, s')"
    by (cases "finalizeSuccessfulPayment e now (orEmpty (dataField wd_reference pl))
        [(''source'', Some ''webhook''),
         (''gatewayResponse'', dataField wd_gateway_response pl),
         (''paidAt'', dataField wd_paid_at pl)] s")
  show ?thesis
  proof (cases res)
    case (Inl err)
    with fin finalize_errors [of e now _ _ s err s']
    have "err = PaymentReferenceNotFound \<or> err = OrderNotFoundForPayment
          \<or> (\<exists>pid. err = FailedToDecrementStock pid)"
      by blast
    with Inl fin assms includes_not_found show ?thesis
      by (auto simp: paystackWebhook_def simp del: errorMessage.simps includesString.simps)
  next
    case (Inr result)
    with fin assms show ?thesis
      by (auto simp: paystackWebhook_def)
  qed
qed

theorem webhook_status_witness:
  "fst (paystackWebhook demo_hmac demo_env 4000
        \<lparr>wr_signature = None, wr_rawBody = ''{}'',
         wr_payload = Some (charge_success ''PAY-2000-K3J9QX'')\<rparr> demo_db)
     = Response 200 (Acknowledged (Some False))
   \<and> fst (paystackWebhook demo_hmac demo_env 5000
        \<lparr>wr_signature = None, wr_rawBody = ''{}'',
         wr_payload = Some (charge_success ''PAY-2000-K3J9QX'')\<rparr> demo_paid_db)
     = Response 200 (Acknowledged (Some True))"
proof -
  have auth: "verifyPaystackWebhookSignature demo_hmac demo_env
      (wr_rawBody \<lparr>wr_signature = None, wr_rawBody = ''{}'',
         wr_payload = Some (charge_success ''PAY-2000-K3J9QX'')\<rparr>)
      (wr_signature \<lparr>wr_signature = None, wr_rawBody = ''{}'',
         wr_payload = Some (charge_success ''PAY-2000-K3J9QX'')\<rparr>)"
    by (simp add: verifyPaystackWebhookSignature_def demo_env_def)
  have parsed: "wr_payload \<lparr>wr_signature = None, wr_rawBody = ''{}'',
         wr_payload = Some (charge_success ''PAY-2000-K3J9QX'')\<rparr>
       = Some (charge_success ''PAY-2000-K3J9QX'')"
    by simp
  have fields: "wp_event (charge_success ''PAY-2000-K3J9QX'') = Some ''charge.success''"
    "dataField wd_reference (charge_success ''PAY-2000-K3J9QX'') = Some ''PAY-2000-K3J9QX''"
    "[(''source'', Some ''webhook''),
      (''gatewayResponse'', dataField wd_gateway_response (charge_success ''PAY-2000-K3J9QX'')),
      (''paidAt'', dataField wd_paid_at (charge_success ''PAY-2000-K3J9QX''))] = demo_md"
    by (simp_all add: charge_success_def dataField_def demo_md_def)
  have replay: "finalizeSuccessfulPayment demo_env 5000 ''PAY-2000-K3J9QX'' demo_md demo_paid_db
     = (Inr \<lparr>r_payment = demo_paid_payment, r_order = demo_paid_order, r_idempotent = True\<rparr>,
        demo_paid_db)"
    by (simp add: finalizeSuccessfulPayment_def demo_defs)
  from webhook_status [OF auth parsed, of 4000 demo_db]
  have first: "fst (paystackWebhook demo_hmac demo_env 4000
        \<lparr>wr_signature = None, wr_rawBody = ''{}'',
         wr_payload = Some (charge_success ''PAY-2000-K3J9QX'')\<rparr> demo_db)
     = Response 200 (Acknowledged (Some False))"
    by (simp add: fields finalize_demo)
  from webhook_status [OF auth parsed, of 5000 demo_paid_db]
  have second: "fst (paystackWebhook demo_hmac demo_env 5000
        \<lparr>wr_signature = None, wr_rawBody = ''{}'',
         wr_payload = Some (charge_success ''PAY-2000-K3J9QX'')\<rparr> demo_paid_db)
     = Response 200 (Acknowledged (Some True))"
    by (simp add: fields replay)
  from first second show ?thesis by blast
qed


subsection \<open>Checkout initiation\<close>

lemma resolveShippingAddress_not_201:
  "resolveShippingAddress tenantId userId body s = Inl resp \<Longrightarrow>
     resp \<noteq> Response 201 (CheckoutCreated a b c)"
  by (auto simp: resolveShippingAddress_def split: address_choice.splits option.splits if_splits)

lemma checkout_outcomes:
  assumes "checkoutInitialize e gw now rnd newOrderId newPaymentId tenantId userId parsed s
             = (resp, s')"
  shows "(s' = s \<and> (\<forall>a b c. resp \<noteq> Response 201 (CheckoutCreated a b c)))
   \<or> (\<exists>body cart shippingAddress paystack.
        parsed = Some body
      \<and> find (\<lambda>c. c_tenantId c = tenantId \<and> c_userId c = Some userId) (carts s) = Some cart
      \<and> c_lines cart \<noteq> []
      \<and> resolveShippingAddress tenantId userId body s = Inr shippingAddress
      \<and> initializePaystackTransaction e gw
             (initPayload tenantId userId body (calculateCartTotals (c_lines cart))
                (orderRefAt now) (paymentRefAt now rnd)) = Inr paystack
      \<and> insertOrder (newOrder newOrderId tenantId userId (orderRefAt now)
                (calculateCartTotals (c_lines cart)) shippingAddress cart now) (orders s)
          = Inr (orders s @ [newOrder newOrderId tenantId userId (orderRefAt now)
                (calculateCartTotals (c_lines cart)) shippingAddress cart now])
      \<and> insertPayment (newPayment newPaymentId tenantId userId newOrderId (paymentRefAt now rnd)
                (calculateCartTotals (c_lines cart)) paystack now) (payments s)
          = Inr (payments s @ [newPayment newPaymentId tenantId userId newOrderId
                (paymentRefAt now rnd) (calculateCartTotals (c_lines cart)) paystack now])
      \<and> resp = Response 201 (CheckoutCreated (orderRefAt now) (paymentRefAt now rnd)
                           (authorization_url paystack))
      \<and> s' = s\<lparr>orders := orders s @ [newOrder newOrderId tenantId userId (orderRefAt now)
                (calculateCartTotals (c_lines cart)) shippingAddress cart now],
               payments := payments s @ [newPayment newPaymentId tenantId userId newOrderId
                (paymentRefAt now rnd) (calculateCartTotals (c_lines cart)) paystack now]\<rparr>)"
proof (cases parsed)
  case None
  with assms show ?thesis by (auto simp: checkoutInitialize_def)
next
  case body: (Some body)
  show ?thesis
  proof (cases "find (\<lambda>c. c_tenantId c = tenantId \<and> c_userId c = Some userId) (carts s)")
    case None
    with assms body show ?thesis by (auto simp: checkoutInitialize_def)
  next
    case cart: (Some cart)
    show ?thesis
    proof (cases "c_lines cart = []")
      case True
      with assms body cart show ?thesis by (auto simp: checkoutInitialize_def)
    next
      case lines: False
      show ?thesis
      proof (cases "resolveShippingAddress tenantId userId body s")
        case (Inl r)
        with assms body cart lines resolveShippingAddress_not_201 [OF Inl] show ?thesis
          by (auto simp: checkoutInitialize_def)
      next
        case addr: (Inr shippingAddress)
        show ?thesis
        proof (cases "initializePaystackTransaction e gw
             (initPayload tenantId userId body (calculateCartTotals (c_lines cart))
                (orderRefAt now) (paymentRefAt now rnd))")
          case (Inl err)
          with assms body cart lines addr show ?thesis
            by (auto simp: checkoutInitialize_def)
        next
          case gwok: (Inr paystack)
          show ?thesis
          proof (cases "insertOrder (newOrder newOrderId tenantId userId (orderRefAt now)
                (calculateCartTotals (c_lines cart)) shippingAddress cart now) (orders s)")
            case (Inl err)
            with assms body cart lines addr gwok show ?thesis
              by (auto simp: checkoutInitialize_def)
          next
            case ord: (Inr os)
            then have os: "os = orders s @ [newOrder newOrderId tenantId userId (orderRefAt now)
                (calculateCartTotals (c_lines cart)) shippingAddress cart now]"
              by (auto simp: insertOrder_def split: if_splits)
            show ?thesis
            proof (cases "insertPayment (newPayment newPaymentId tenantId userId newOrderId
                (paymentRefAt now rnd) (calculateCartTotals (c_lines cart)) paystack now)
                (payments s)")
              case (Inl err)
              with assms body cart lines addr gwok ord show ?thesis
                by (auto simp: checkoutInitialize_def)
            next
              case pay: (Inr ps)
              then have ps: "ps = payments s @ [newPayment newPaymentId tenantId userId newOrderId
                (paymentRefAt now rnd) (calculateCartTotals (c_lines cart)) paystack now]"
                by (auto simp: insertPayment_def split: if_splits)
              from assms body cart lines addr gwok ord pay
              have "resp = Response 201 (CheckoutCreated (orderRefAt now) (paymentRefAt now rnd)
                           (authorization_url paystack))"
                and "s' = s\<lparr>orders := os, payments := ps\<rparr>"
                by (auto simp: checkoutInitialize_def)
              with body cart lines addr gwok ord pay os ps show ?thesis
                by blast
            qed
          qed
        qed
      qed
    qed
  qed
qed


lemma toString_2000: "toString 2000 = ''2000''"
  by code_simp

lemmas checkout_defs = checkoutInitialize_def resolveShippingAddress_def
  initializePaystackTransaction_def initPayload_def orderRefAt_def paymentRefAt_def
  calculateCartTotals_def insertOrder_def insertPayment_def newOrder_def newPayment_def
  two_tenants_db_def inline_address_def demo_gateway_def toString_2000 toDouble_safe

lemma checkout_demo:
  "checkoutInitialize demo_env demo_gateway 2000 ''K3J9QX'' 50 60 1 7 (Some inline_address)
     two_tenants_db
   = (Response 201 (CheckoutCreated ''SWS-2000'' ''PAY-2000-K3J9QX''
                      ''https://paystack.test/authorize/PAY-2000-K3J9QX''),
      two_tenants_db\<lparr>orders := [demo_order], payments := [demo_payment]\<rparr>)"
  by (simp add: checkout_defs demo_defs Let_def)

lemma checkout_tenant2:
  "checkoutInitialize demo_env demo_gateway 2000 ''K3J9QX'' 52 62 2 8 (Some inline_address)
     (two_tenants_db\<lparr>orders := [demo_order], payments := [demo_payment]\<rparr>)
   = (Response 201 (CheckoutCreated ''SWS-2000'' ''PAY-2000-K3J9QX''
                      ''https://paystack.test/authorize/PAY-2000-K3J9QX''),
      collided_db)"
  by (simp add: checkout_defs demo_defs tenant2_order_def tenant2_payment_def collided_db_def
        Let_def)

lemma finalize_collided:
  "map p_status (payments (snd (finalizeSuccessfulPayment demo_env 5000 ''PAY-2000-K3J9QX'' demo_md
     (snd (finalizeSuccessfulPayment demo_env 4000 ''PAY-2000-K3J9QX'' demo_md collided_db)))))
   = [Success, Initialized]"
  by (simp add: finalizeSuccessfulPayment_def demo_defs tenant2_order_def tenant2_payment_def
        collided_db_def two_tenants_db_def Let_def stockFilter_def
        incPositionalStock_def notifyCustomer_def enqueueOrderStatusNotification_def
        spread_def omitUndefined_def storedPayment_def trim_def isSpace_def)


lemma shipping_not_NaN: "shippingNgn (calculateCartTotals ls) \<noteq> NaN"
  by (simp add: calculateCartTotals_def Let_def)

lemma insertOrder_new:
  assumes "subtotalNgn tot \<noteq> NaN" "shippingNgn tot \<noteq> NaN" "totalNgn tot \<noteq> NaN"
      and "\<not> list_ex (\<lambda>q. o_id q = newOrderId
                          \<or> (o_tenantId q = tenantId \<and> o_orderRef q = orderRef)) os"
  shows "insertOrder (newOrder newOrderId tenantId userId orderRef tot shippingAddress cart now) os
         = Inr (os @ [newOrder newOrderId tenantId userId orderRef tot shippingAddress cart now])"
proof -
  have "o_subtotalNgn (newOrder newOrderId tenantId userId orderRef tot shippingAddress cart now)
          = subtotalNgn tot"
    "o_shippingNgn (newOrder newOrderId tenantId userId orderRef tot shippingAddress cart now)
          = shippingNgn tot"
    "o_totalNgn (newOrder newOrderId tenantId userId orderRef tot shippingAddress cart now)
          = totalNgn tot"
    "o_id (newOrder newOrderId tenantId userId orderRef tot shippingAddress cart now) = newOrderId"
    "o_tenantId (newOrder newOrderId tenantId userId orderRef tot shippingAddress cart now)
          = tenantId"
    "o_orderRef (newOrder newOrderId tenantId userId orderRef tot shippingAddress cart now)
          = orderRef"
    by (simp_all add: newOrder_def)
  with assms show ?thesis
    by (simp add: insertOrder_def)
qed

lemma insertPayment_new:
  assumes "totalNgn tot \<noteq> NaN"
      and "\<not> list_ex (\<lambda>q. p_id q = newPaymentId
                          \<or> (p_tenantId q = tenantId \<and> p_providerRef q = paymentRef)) ps"
  shows "insertPayment (newPayment newPaymentId tenantId userId orderId paymentRef tot paystack now) ps
         = Inr (ps @ [newPayment newPaymentId tenantId userId orderId paymentRef tot paystack now])"
proof -
  have "p_amountNgn (newPayment newPaymentId tenantId userId orderId paymentRef tot paystack now)
          = totalNgn tot"
    "p_id (newPayment newPaymentId tenantId userId orderId paymentRef tot paystack now)
          = newPaymentId"
    "p_tenantId (newPayment newPaymentId tenantId userId orderId paymentRef tot paystack now)
          = tenantId"
    "p_providerRef (newPayment newPaymentId tenantId userId orderId paymentRef tot paystack now)
          = paymentRef"
    by (simp_all add: newPayment_def)
  with assms show ?thesis
    by (simp add: insertPayment_def)
qed

text \<open>
  Checkout does create the pair: with a parsed body, a cart that is not empty, a shipping
  address, a gateway that accepts the request, totals that are numbers and no clash of ids
  or references, the answer is 201 and the new order and payment are appended.
\<close>

lemma checkout_creates:
  assumes "parsed = Some body"
      and "find (\<lambda>c. c_tenantId c = tenantId \<and> c_userId c = Some userId) (carts s) = Some cart"
      and "c_lines cart \<noteq> []"
      and "resolveShippingAddress tenantId userId body s = Inr shippingAddress"
      and "truthy (PAYSTACK_SECRET_KEY e)"
      and "gw (initPayload tenantId userId body (calculateCartTotals (c_lines cart))
                 (orderRefAt now) (paymentRefAt now rnd)) = Some paystack"
      and "subtotalNgn (calculateCartTotals (c_lines cart)) \<noteq> NaN"
      and "totalNgn (calculateCartTotals (c_lines cart)) \<noteq> NaN"
      and "\<not> list_ex (\<lambda>q. o_id q = newOrderId
                          \<or> (o_tenantId q = tenantId \<and> o_orderRef q = orderRefAt now)) (orders s)"
      and "\<not> list_ex (\<lambda>q. p_id q = newPaymentId
                          \<or> (p_tenantId q = tenantId \<and> p_providerRef q = paymentRefAt now rnd))
                 (payments s)"
  shows "checkoutInitialize e gw now rnd newOrderId newPaymentId tenantId userId parsed s
     = (Response 201 (CheckoutCreated (orderRefAt now) (paymentRefAt now rnd)
                        (authorization_url paystack)),
        s\<lparr>orders := orders s @ [newOrder newOrderId tenantId userId (orderRefAt now)
                (calculateCartTotals (c_lines cart)) shippingAddress cart now],
          payments := payments s @ [newPayment newPaymentId tenantId userId newOrderId
                (paymentRefAt now rnd) (calculateCartTotals (c_lines cart)) paystack now]\<rparr>)"
proof -
  have gateway: "initializePaystackTransaction e gw
             (initPayload tenantId userId body (calculateCartTotals (c_lines cart))
                (orderRefAt now) (paymentRefAt now rnd)) = Inr paystack"
    using assms(5,6) by (simp add: initializePaystackTransaction_def)
  note ord = insertOrder_new [OF assms(7) shipping_not_NaN assms(8) assms(9),
      of userId shippingAddress cart now]
  note pay = insertPayment_new [OF assms(8) assms(10), of userId newOrderId paystack now]
  from assms(1,2,3,4) gateway ord pay show ?thesis
    by (simp add: checkoutInitialize_def)
qed

text \<open>
  C6. With the preconditions of checkout met (a parsed body, a cart that is not empty, a
  shipping address, totals that are numbers, no clash of ids or references) and a gateway
  that accepts the initialize request, checkout initiation answers 201 and appends exactly
  one order (pending, one timeline entry) and one payment (initialized, for that order).
  Whatever it answers, either the state is unchanged and the answer is not 201, or the
  gateway accepted the request for this payment reference and amount and the state is the
  old one with that one order and that one payment appended: never one without the other.
  In particular, when the gateway key is missing or the gateway refuses every request,
  nothing is persisted.
\<close>

theorem checkout_all_or_nothing:
  assumes "checkoutInitialize e gw now rnd newOrderId newPaymentId tenantId userId parsed s
             = (resp, s')"
  shows "((s' = s \<and> (\<forall>a b c. resp \<noteq> Response 201 (CheckoutCreated a b c)))
          \<or> (\<exists>ord pay payload paystack.
                resp = Response 201 (CheckoutCreated (o_orderRef ord) (p_providerRef pay)
                                       (authorization_url paystack))
              \<and> initializePaystackTransaction e gw payload = Inr paystack
              \<and> pi_reference payload = p_providerRef pay
              \<and> pi_amountKobo payload = mulNumber (o_totalNgn ord) (Fin 100)
              \<and> s' = s\<lparr>orders := orders s @ [ord], payments := payments s @ [pay]\<rparr>
              \<and> o_id ord = newOrderId \<and> o_tenantId ord = tenantId \<and> o_userId ord = userId
              \<and> o_status ord = Pending \<and> length (o_timeline ord) = 1
              \<and> p_id pay = newPaymentId \<and> p_tenantId pay = tenantId
              \<and> p_orderId pay = newOrderId \<and> p_status pay = Initialized
              \<and> p_amountNgn pay = o_totalNgn ord))
       \<and> ((\<not> truthy (PAYSTACK_SECRET_KEY e) \<or> (\<forall>payload. gw payload = None)) \<longrightarrow> s' = s)
       \<and> (parsed = Some body
            \<and> find (\<lambda>c. c_tenantId c = tenantId \<and> c_userId c = Some userId) (carts s) = Some cart
            \<and> c_lines cart \<noteq> []
            \<and> resolveShippingAddress tenantId userId body s = Inr shippingAddress
            \<and> truthy (PAYSTACK_SECRET_KEY e)
            \<and> gw (initPayload tenantId userId body (calculateCartTotals (c_lines cart))
                     (orderRefAt now) (paymentRefAt now rnd)) = Some accepted
            \<and> subtotalNgn (calculateCartTotals (c_lines cart)) \<noteq> NaN
            \<and> totalNgn (calculateCartTotals (c_lines cart)) \<noteq> NaN
            \<and> \<not> list_ex (\<lambda>q. o_id q = newOrderId
                          \<or> (o_tenantId q = tenantId \<and> o_orderRef q = orderRefAt now)) (orders s)
            \<and> \<not> list_ex (\<lambda>q. p_id q = newPaymentId
                          \<or> (p_tenantId q = tenantId \<and> p_providerRef q = paymentRefAt now rnd))
                   (payments s)
          \<longrightarrow> resp = Response 201 (CheckoutCreated (orderRefAt now) (paymentRefAt now rnd)
                        (authorization_url accepted))
            \<and> s' = s\<lparr>orders := orders s @ [newOrder newOrderId tenantId userId (orderRefAt now)
                        (calculateCartTotals (c_lines cart)) shippingAddress cart now],
                     payments := payments s @ [newPayment newPaymentId tenantId userId newOrderId
                        (paymentRefAt now rnd) (calculateCartTotals (c_lines cart)) accepted now]\<rparr>
            \<and> o_status (newOrder newOrderId tenantId userId (orderRefAt now)
                        (calculateCartTotals (c_lines cart)) shippingAddress cart now) = Pending
            \<and> length (o_timeline (newOrder newOrderId tenantId userId (orderRefAt now)
                        (calculateCartTotals (c_lines cart)) shippingAddress cart now)) = 1
            \<and> p_status (newPayment newPaymentId tenantId userId newOrderId
                        (paymentRefAt now rnd) (calculateCartTotals (c_lines cart)) accepted now)
                = Initialized
            \<and> p_orderId (newPayment newPaymentId tenantId userId newOrderId
                        (paymentRefAt now rnd) (calculateCartTotals (c_lines cart)) accepted now)
                = newOrderId)"
    (is "(?unchanged \<or> ?created) \<and> ?refused \<and> (?ready \<longrightarrow> ?creates)")
proof -
  have creates: "?ready \<longrightarrow> ?creates"
  proof
    assume ready: ?ready
    then have "checkoutInitialize e gw now rnd newOrderId newPaymentId tenantId userId parsed s
       = (Response 201 (CheckoutCreated (orderRefAt now) (paymentRefAt now rnd)
                        (authorization_url accepted)),
        s\<lparr>orders := orders s @ [newOrder newOrderId tenantId userId (orderRefAt now)
                (calculateCartTotals (c_lines cart)) shippingAddress cart now],
          payments := payments s @ [newPayment newPaymentId tenantId userId newOrderId
                (paymentRefAt now rnd) (calculateCartTotals (c_lines cart)) accepted now]\<rparr>)"
      by (elim conjE) (rule checkout_creates; assumption)
    with assms show ?creates
      by (simp add: newOrder_def newPayment_def)
  qed
  from checkout_outcomes [OF assms]
  consider (unchanged) "s' = s" "\<forall>a b c. resp \<noteq> Response 201 (CheckoutCreated a b c)"
    | (created) body cart shippingAddress paystack where
        "initializePaystackTransaction e gw
             (initPayload tenantId userId body (calculateCartTotals (c_lines cart))
                (orderRefAt now) (paymentRefAt now rnd)) = Inr paystack"
        "resp = Response 201 (CheckoutCreated (orderRefAt now) (paymentRefAt now rnd)
                           (authorization_url paystack))"
        "s' = s\<lparr>orders := orders s @ [newOrder newOrderId tenantId userId (orderRefAt now)
                (calculateCartTotals (c_lines cart)) shippingAddress cart now],
               payments := payments s @ [newPayment newPaymentId tenantId userId newOrderId
                (paymentRefAt now rnd) (calculateCartTotals (c_lines cart)) paystack now]\<rparr>"
    by blast
  then have safe: "(?unchanged \<or> ?created) \<and> ?refused"
  proof cases
    case unchanged
    then show ?thesis by blast
  next
    case created
    let ?ord = "newOrder newOrderId tenantId userId (orderRefAt now)
                (calculateCartTotals (c_lines cart)) shippingAddress cart now"
    let ?pay = "newPayment newPaymentId tenantId userId newOrderId
                (paymentRefAt now rnd) (calculateCartTotals (c_lines cart)) paystack now"
    let ?payload = "initPayload tenantId userId body (calculateCartTotals (c_lines cart))
                (orderRefAt now) (paymentRefAt now rnd)"
    have fields: "o_orderRef ?ord = orderRefAt now" "p_providerRef ?pay = paymentRefAt now rnd"
      "pi_reference ?payload = p_providerRef ?pay"
      "pi_amountKobo ?payload = mulNumber (o_totalNgn ?ord) (Fin 100)"
      "o_id ?ord = newOrderId" "o_tenantId ?ord = tenantId" "o_userId ?ord = userId"
      "o_status ?ord = Pending" "length (o_timeline ?ord) = 1"
      "p_id ?pay = newPaymentId" "p_tenantId ?pay = tenantId"
      "p_orderId ?pay = newOrderId" "p_status ?pay = Initialized"
      "p_amountNgn ?pay = o_totalNgn ?ord"
      by (simp_all add: newOrder_def newPayment_def initPayload_def)
    have gateway: "truthy (PAYSTACK_SECRET_KEY e)" "gw ?payload \<noteq> None"
      using created(1)
      by (auto simp: initializePaystackTransaction_def split: if_splits option.splits)
    have ?created
      apply (rule exI [of _ ?ord])
      apply (rule exI [of _ ?pay])
      apply (rule exI [of _ ?payload])
      apply (rule exI [of _ paystack])
      using created fields by simp
    then have "?unchanged \<or> ?created" by (rule disjI2)
    moreover have ?refused using gateway by auto
    ultimately show ?thesis by (rule conjI)
  qed
  from safe creates show ?thesis by blast
qed

theorem checkout_all_or_nothing_witness:
  "checkoutInitialize demo_env demo_gateway 2000 ''K3J9QX'' 50 60 1 7 (Some inline_address)
     two_tenants_db
   = (Response 201 (CheckoutCreated ''SWS-2000'' ''PAY-2000-K3J9QX''
                      ''https://paystack.test/authorize/PAY-2000-K3J9QX''),
      two_tenants_db\<lparr>orders := [demo_order], payments := [demo_payment]\<rparr>)
   \<and> snd (checkoutInitialize demo_env (\<lambda>payload. None) 2000 ''K3J9QX'' 50 60 1 7
            (Some inline_address) two_tenants_db) = two_tenants_db"
proof -
  have run: "checkoutInitialize demo_env demo_gateway 2000 ''K3J9QX'' 50 60 1 7
            (Some inline_address) two_tenants_db
     = (fst (checkoutInitialize demo_env demo_gateway 2000 ''K3J9QX'' 50 60 1 7
            (Some inline_address) two_tenants_db),
        snd (checkoutInitialize demo_env demo_gateway 2000 ''K3J9QX'' 50 60 1 7
            (Some inline_address) two_tenants_db))"
    by simp
  have tot: "calculateCartTotals (c_lines demo_cart)
               = \<lparr>subtotalNgn = Fin 15000, shippingNgn = Fin 2500, totalNgn = Fin 17500\<rparr>"
    by (simp add: calculateCartTotals_def Let_def demo_cart_def toDouble_safe)
  have ready: "Some inline_address = Some inline_address
      \<and> find (\<lambda>c. c_tenantId c = 1 \<and> c_userId c = Some 7) (carts two_tenants_db) = Some demo_cart
      \<and> c_lines demo_cart \<noteq> []
      \<and> resolveShippingAddress 1 7 inline_address two_tenants_db
          = Inr \<lparr>sa_address = ''12 Admiralty Way'', sa_city = ''Lagos'', sa_state = ''Lagos''\<rparr>
      \<and> truthy (PAYSTACK_SECRET_KEY demo_env)
      \<and> demo_gateway (initPayload 1 7 inline_address (calculateCartTotals (c_lines demo_cart))
                        (orderRefAt 2000) (paymentRefAt 2000 ''K3J9QX''))
          = Some \<lparr>authorization_url = ''https://paystack.test/authorize/PAY-2000-K3J9QX'',
                  access_code = ''access_code_mock''\<rparr>
      \<and> subtotalNgn (calculateCartTotals (c_lines demo_cart)) \<noteq> NaN
      \<and> totalNgn (calculateCartTotals (c_lines demo_cart)) \<noteq> NaN
      \<and> \<not> list_ex (\<lambda>q. o_id q = 50 \<or> (o_tenantId q = 1 \<and> o_orderRef q = orderRefAt 2000))
             (orders two_tenants_db)
      \<and> \<not> list_ex (\<lambda>q. p_id q = 60
                        \<or> (p_tenantId q = 1 \<and> p_providerRef q = paymentRefAt 2000 ''K3J9QX''))
             (payments two_tenants_db)"
    unfolding tot
    by (simp add: two_tenants_db_def demo_cart_def inline_address_def resolveShippingAddress_def
          demo_env_def demo_gateway_def initPayload_def orderRefAt_def paymentRefAt_def
          toString_2000)
  have docs: "newOrder 50 1 7 (orderRefAt 2000) (calculateCartTotals (c_lines demo_cart))
                \<lparr>sa_address = ''12 Admiralty Way'', sa_city = ''Lagos'', sa_state = ''Lagos''\<rparr>
                demo_cart 2000 = demo_order"
    "newPayment 60 1 7 50 (paymentRefAt 2000 ''K3J9QX'') (calculateCartTotals (c_lines demo_cart))
       \<lparr>authorization_url = ''https://paystack.test/authorize/PAY-2000-K3J9QX'',
        access_code = ''access_code_mock''\<rparr> 2000 = demo_payment"
    unfolding tot
    by (simp_all add: newOrder_def newPayment_def demo_order_def demo_payment_def demo_cart_def
          orderRefAt_def paymentRefAt_def toString_2000)
  have refs: "orders two_tenants_db @ [demo_order] = [demo_order]"
    "payments two_tenants_db @ [demo_payment] = [demo_payment]"
    "orderRefAt 2000 = ''SWS-2000''" "paymentRefAt 2000 ''K3J9QX'' = ''PAY-2000-K3J9QX''"
    "authorization_url \<lparr>authorization_url = ''https://paystack.test/authorize/PAY-2000-K3J9QX'',
        access_code = ''access_code_mock''\<rparr> = ''https://paystack.test/authorize/PAY-2000-K3J9QX''"
    by (simp_all add: orderRefAt_def paymentRefAt_def toString_2000 two_tenants_db_def)
  note created = checkout_all_or_nothing [OF run,
      THEN conjunct2, THEN conjunct2, rule_format, OF ready, unfolded docs, unfolded refs]
  from created
  have "fst (checkoutInitialize demo_env demo_gateway 2000 ''K3J9QX'' 50 60 1 7
            (Some inline_address) two_tenants_db)
          = Response 201 (CheckoutCreated ''SWS-2000'' ''PAY-2000-K3J9QX''
                      ''https://paystack.test/authorize/PAY-2000-K3J9QX'')"
    and "snd (checkoutInitialize demo_env demo_gateway 2000 ''K3J9QX'' 50 60 1 7
            (Some inline_address) two_tenants_db)
          = two_tenants_db\<lparr>orders := [demo_order], payments := [demo_payment]\<rparr>"
    by blast+
  then have accepted: "checkoutInitialize demo_env demo_gateway 2000 ''K3J9QX'' 50 60 1 7
            (Some inline_address) two_tenants_db
   = (Response 201 (CheckoutCreated ''SWS-2000'' ''PAY-2000-K3J9QX''
                      ''https://paystack.test/authorize/PAY-2000-K3J9QX''),
      two_tenants_db\<lparr>orders := [demo_order], payments := [demo_payment]\<rparr>)"
    by (simp only: prod_eq_iff fst_conv snd_conv)
  have run': "checkoutInitialize demo_env (\<lambda>payload. None) 2000 ''K3J9QX'' 50 60 1 7
            (Some inline_address) two_tenants_db
     = (fst (checkoutInitialize demo_env (\<lambda>payload. None) 2000 ''K3J9QX'' 50 60 1 7
            (Some inline_address) two_tenants_db),
        snd (checkoutInitialize demo_env (\<lambda>payload. None) 2000 ''K3J9QX'' 50 60 1 7
            (Some inline_address) two_tenants_db))"
    by simp
  from checkout_all_or_nothing [OF run']
  have refused: "snd (checkoutInitialize demo_env (\<lambda>payload. None) 2000 ''K3J9QX'' 50 60 1 7
            (Some inline_address) two_tenants_db) = two_tenants_db"
    by blast
  from accepted refused show ?thesis by blast
qed

subsection \<open>Payment references\<close>

text \<open>
  C8 as stated says that no two payments of any tenants ever hold the same provider
  reference. Two tenants check out at the same clock reading with the same random suffix:
  both checkouts succeed, and the two payments, one per tenant, hold the same provider
  reference. Finalize with that reference confirms the first tenant's payment; repeated,
  it replays the first, and the second tenant's payment stays initialized.
\<close>

theorem payment_reference_shared_counterexample:
  "map p_providerRef (payments (run
      [Checkout demo_env demo_gateway 2000 ''K3J9QX'' 50 60 1 7 (Some inline_address),
       Checkout demo_env demo_gateway 2000 ''K3J9QX'' 52 62 2 8 (Some inline_address)]
      two_tenants_db)) = [''PAY-2000-K3J9QX'', ''PAY-2000-K3J9QX'']
   \<and> map p_tenantId (payments (run
      [Checkout demo_env demo_gateway 2000 ''K3J9QX'' 50 60 1 7 (Some inline_address),
       Checkout demo_env demo_gateway 2000 ''K3J9QX'' 52 62 2 8 (Some inline_address)]
      two_tenants_db)) = [1, 2]
   \<and> map p_status (payments (run
      [Checkout demo_env demo_gateway 2000 ''K3J9QX'' 50 60 1 7 (Some inline_address),
       Checkout demo_env demo_gateway 2000 ''K3J9QX'' 52 62 2 8 (Some inline_address),
       Finalize demo_env 4000 ''PAY-2000-K3J9QX'' demo_md,
       Finalize demo_env 5000 ''PAY-2000-K3J9QX'' demo_md]
      two_tenants_db)) = [Success, Initialized]"
proof -
  have two: "run
      [Checkout demo_env demo_gateway 2000 ''K3J9QX'' 50 60 1 7 (Some inline_address),
       Checkout demo_env demo_gateway 2000 ''K3J9QX'' 52 62 2 8 (Some inline_address)]
      two_tenants_db = collided_db"
    by (simp only: run.simps step.simps checkout_demo checkout_tenant2 snd_conv)
  have four: "run
      [Checkout demo_env demo_gateway 2000 ''K3J9QX'' 50 60 1 7 (Some inline_address),
       Checkout demo_env demo_gateway 2000 ''K3J9QX'' 52 62 2 8 (Some inline_address),
       Finalize demo_env 4000 ''PAY-2000-K3J9QX'' demo_md,
       Finalize demo_env 5000 ''PAY-2000-K3J9QX'' demo_md]
      two_tenants_db
     = snd (finalizeSuccessfulPayment demo_env 5000 ''PAY-2000-K3J9QX'' demo_md
     (snd (finalizeSuccessfulPayment demo_env 4000 ''PAY-2000-K3J9QX'' demo_md collided_db)))"
    by (simp only: run.simps step.simps checkout_demo checkout_tenant2 snd_conv)
  have refs: "map p_providerRef (payments collided_db) = [''PAY-2000-K3J9QX'', ''PAY-2000-K3J9QX'']"
    "map p_tenantId (payments collided_db) = [1, 2]"
    by (simp_all add: collided_db_def demo_payment_def tenant2_payment_def)
  show ?thesis
    unfolding two four refs finalize_collided by simp
qed


text \<open>What each operation does to the payments.\<close>

lemma admin_frame:
  "payments (snd (adminUpdateOrderStatus e now tenantId orderId role parsed s)) = payments s"
  by (auto simp: adminUpdateOrderStatus_def Let_def notifyCustomer_frame
           split: option.splits)

lemma tracking_frame:
  "payments (snd (postTrackingEvent now newEventId tenantId orderId role parsed s)) = payments s"
  by (auto simp: postTrackingEvent_def Let_def split: option.splits)

lemma finalize_payments:
  "payments (snd (finalizeSuccessfulPayment e now reference md s)) = payments s
   \<or> (\<exists>pay pay'. pay \<in> set (payments s) \<and> p_id pay' = p_id pay
         \<and> p_tenantId pay' = p_tenantId pay \<and> p_providerRef pay' = p_providerRef pay
         \<and> payments (snd (finalizeSuccessfulPayment e now reference md s))
             = updateOne (\<lambda>q. p_id q = p_id pay) (\<lambda>_. pay') (payments s))"
proof -
  have "finalizeSuccessfulPayment e now reference md s
          = (fst (finalizeSuccessfulPayment e now reference md s),
             snd (finalizeSuccessfulPayment e now reference md s))"
    by simp
  from finalize_outcomes [OF this] show ?thesis
  proof (elim disjE exE conjE)
    fix pay ord ps pay' ord'
    assume found: "find (\<lambda>p. p_providerRef p = reference) (payments s) = Some pay"
      and pay': "pay' = pay\<lparr>p_status := Success, p_verifiedAt := Some now,
                      p_metadata := spread (p_metadata pay) md, p_updatedAt := now\<rparr>"
      and s': "snd (finalizeSuccessfulPayment e now reference md s) =
          notifyCustomer e ord' Paid None ''Payment confirmed.''
             (s\<lparr>payments := updateOne (\<lambda>q. p_id q = p_id pay)
                              (\<lambda>_. storedPayment pay') (payments s),
                orders := updateOne (\<lambda>q. o_id q = o_id ord) (\<lambda>_. ord') (orders s),
                products := ps,
                carts := updateOne
                  (\<lambda>c. c_tenantId c = o_tenantId ord \<and> c_userId c = Some (o_userId ord))
                  (\<lambda>c. c\<lparr>c_lines := [], c_updatedAt := now\<rparr>) (carts s)\<rparr>)"
    from find_Some_set [OF found] have "pay \<in> set (payments s)" by simp
    moreover have "p_id (storedPayment pay') = p_id pay"
      "p_tenantId (storedPayment pay') = p_tenantId pay"
      "p_providerRef (storedPayment pay') = p_providerRef pay"
      by (simp_all add: pay' storedPayment_def)
    moreover have "payments (snd (finalizeSuccessfulPayment e now reference md s))
             = updateOne (\<lambda>q. p_id q = p_id pay) (\<lambda>_. storedPayment pay') (payments s)"
      by (simp add: s' notifyCustomer_frame)
    ultimately show ?thesis by blast
  qed simp_all
qed

lemma checkout_payments:
  "payments (snd (checkoutInitialize e gw now rnd newOrderId newPaymentId tenantId userId parsed s))
     = payments s
   \<or> (\<exists>new. insertPayment new (payments s)
         = Inr (payments (snd (checkoutInitialize e gw now rnd newOrderId newPaymentId tenantId
                               userId parsed s))))"
proof -
  have "checkoutInitialize e gw now rnd newOrderId newPaymentId tenantId userId parsed s
          = (fst (checkoutInitialize e gw now rnd newOrderId newPaymentId tenantId userId parsed s),
             snd (checkoutInitialize e gw now rnd newOrderId newPaymentId tenantId userId parsed s))"
    by simp
  from checkout_outcomes [OF this] show ?thesis
  proof (elim disjE exE conjE)
    fix body cart shippingAddress paystack
    assume "insertPayment (newPayment newPaymentId tenantId userId newOrderId (paymentRefAt now rnd)
                (calculateCartTotals (c_lines cart)) paystack now) (payments s)
          = Inr (payments s @ [newPayment newPaymentId tenantId userId newOrderId
                (paymentRefAt now rnd) (calculateCartTotals (c_lines cart)) paystack now])"
      and "snd (checkoutInitialize e gw now rnd newOrderId newPaymentId tenantId userId parsed s)
         = s\<lparr>orders := orders s @ [newOrder newOrderId tenantId userId (orderRefAt now)
                (calculateCartTotals (c_lines cart)) shippingAddress cart now],
               payments := payments s @ [newPayment newPaymentId tenantId userId newOrderId
                (paymentRefAt now rnd) (calculateCartTotals (c_lines cart)) paystack now]\<rparr>"
    then have "insertPayment (newPayment newPaymentId tenantId userId newOrderId
                (paymentRefAt now rnd) (calculateCartTotals (c_lines cart)) paystack now)
                (payments s)
      = Inr (payments (snd (checkoutInitialize e gw now rnd newOrderId newPaymentId tenantId
                               userId parsed s)))"
      by simp
    then show ?thesis by blast
  qed simp
qed

lemma payments_step:
  "payments (step op s) = payments s
   \<or> (\<exists>pay pay'. pay \<in> set (payments s) \<and> p_id pay' = p_id pay
         \<and> p_tenantId pay' = p_tenantId pay \<and> p_providerRef pay' = p_providerRef pay
         \<and> payments (step op s) = updateOne (\<lambda>q. p_id q = p_id pay) (\<lambda>_. pay') (payments s))
   \<or> (\<exists>new. insertPayment new (payments s) = Inr (payments (step op s)))"
proof (cases op)
  case (Finalize e now reference md)
  with finalize_payments [of e now reference md s] show ?thesis by auto
next
  case (AdminStatus e now tenantId orderId role parsed)
  with admin_frame [of e now tenantId orderId role parsed s] show ?thesis by auto
next
  case (TrackingEvent now newEventId tenantId orderId role parsed)
  with tracking_frame [of now newEventId tenantId orderId role parsed s] show ?thesis by auto
next
  case (Checkout e gw now rnd newOrderId newPaymentId tenantId userId parsed)
  with checkout_payments [of e gw now rnd newOrderId newPaymentId tenantId userId parsed s]
  show ?thesis by auto
qed

lemma map_updateOne_same:
  "distinct (map k xs) \<Longrightarrow> x \<in> set xs \<Longrightarrow> g x' = g x
   \<Longrightarrow> map g (updateOne (\<lambda>q. k q = k x) (\<lambda>_. x') xs) = map g xs"
  by (induction xs) (auto simp: rev_image_eqI)

lemma payments_step_indexed:
  assumes "distinct (map p_id (payments s))"
      and "distinct (map (\<lambda>p. (p_tenantId p, p_providerRef p)) (payments s))"
  shows "distinct (map p_id (payments (step op s)))
       \<and> distinct (map (\<lambda>p. (p_tenantId p, p_providerRef p)) (payments (step op s)))"
proof -
  from payments_step [of op s]
  consider (same) "payments (step op s) = payments s"
    | (saved) pay pay' where "pay \<in> set (payments s)" "p_id pay' = p_id pay"
        "p_tenantId pay' = p_tenantId pay" "p_providerRef pay' = p_providerRef pay"
        "payments (step op s) = updateOne (\<lambda>q. p_id q = p_id pay) (\<lambda>_. pay') (payments s)"
    | (inserted) new where "insertPayment new (payments s) = Inr (payments (step op s))"
    by blast
  then show ?thesis
  proof cases
    case same
    with assms show ?thesis by simp
  next
    case saved
    have "map p_id (payments (step op s)) = map p_id (payments s)"
      unfolding saved(5) by (rule map_updateOne_same [OF assms(1) saved(1)]) (simp add: saved(2))
    moreover have "map (\<lambda>p. (p_tenantId p, p_providerRef p)) (payments (step op s))
                 = map (\<lambda>p. (p_tenantId p, p_providerRef p)) (payments s)"
      unfolding saved(5)
      by (rule map_updateOne_same [OF assms(1) saved(1)]) (simp add: saved(3,4))
    ultimately show ?thesis using assms by simp
  next
    case inserted
    then have app: "payments (step op s) = payments s @ [new]"
      and fresh: "p_id new \<notin> set (map p_id (payments s))"
        "(p_tenantId new, p_providerRef new)
           \<notin> set (map (\<lambda>p. (p_tenantId p, p_providerRef p)) (payments s))"
      by (auto simp: insertPayment_def list_ex_iff split: if_splits)
    with assms show ?thesis by simp
  qed
qed

lemma find_split:
  "find P xs = Some x \<Longrightarrow>
     \<exists>before after. xs = before @ x # after \<and> (\<forall>q \<in> set before. \<not> P q) \<and> P x"
proof (induction xs)
  case Nil
  then show ?case by simp
next
  case (Cons y ys)
  show ?case
  proof (cases "P y")
    case True
    with Cons.prems have "y = x" by simp
    with True show ?thesis by (intro exI [of _ "[]"] exI [of _ ys]) simp
  next
    case False
    with Cons.prems have "find P ys = Some x" by simp
    from Cons.IH [OF this] obtain before after where
      "ys = before @ x # after" "\<forall>q \<in> set before. \<not> P q" "P x" by blast
    with False show ?thesis
      by (intro exI [of _ "y # before"] exI [of _ after]) simp
  qed
qed

lemma updateOne_at:
  "distinct (map k (before @ x # after)) \<Longrightarrow>
     updateOne (\<lambda>q. k q = k x) (\<lambda>_. x') (before @ x # after) = before @ x' # after"
  by (induction before) auto

lemma decrementLines_error:
  "decrementLines t now ls ps = Inl err \<Longrightarrow> \<exists>pid. err = FailedToDecrementStock pid"
  by (induction ls arbitrary: ps) (auto simp: Let_def split: if_splits)

lemma finalize_resolves_first:
  assumes ids: "distinct (map p_id (payments s))"
      and run: "finalizeSuccessfulPayment e now reference md s = (Inr r, t)"
  shows "\<exists>before first after.
           payments s = before @ first # after
         \<and> (\<forall>q \<in> set before. p_providerRef q \<noteq> reference)
         \<and> p_providerRef first = reference
         \<and> p_id (r_payment r) = p_id first \<and> p_tenantId (r_payment r) = p_tenantId first
         \<and> p_status (r_payment r) = Success
         \<and> payments t = before @ (if r_idempotent r then first
                                   else storedPayment (r_payment r)) # after"
  using finalize_outcomes [OF run]
proof (elim disjE exE conjE, goal_cases)
  case 1
  then show ?case by simp
next
  case (2 pay)
  then show ?case by simp
next
  case (3 pay ord)
  from find_split [OF 3(3)] obtain before after where
    split: "payments s = before @ pay # after"
      "\<forall>q \<in> set before. p_providerRef q \<noteq> reference" "p_providerRef pay = reference"
    by blast
  from 3(1) have r: "r = \<lparr>r_payment = pay, r_order = ord, r_idempotent = True\<rparr>" by simp
  have sel: "r_payment r = pay" "r_idempotent r" by (simp_all add: r)
  have "payments s = before @ pay # after
       \<and> (\<forall>q \<in> set before. p_providerRef q \<noteq> reference)
       \<and> p_providerRef pay = reference
       \<and> p_id (r_payment r) = p_id pay \<and> p_tenantId (r_payment r) = p_tenantId pay
       \<and> p_status (r_payment r) = Success
       \<and> payments t = before @ (if r_idempotent r then pay
                                 else storedPayment (r_payment r)) # after"
    using split 3(5) by (simp add: sel 3(2))
  then show ?case by (intro exI)
next
  case (4 pay ord err)
  then show ?case by simp
next
  case (5 pay ord ps pay' ord')
  from find_split [OF 5(1)] obtain before after where
    split: "payments s = before @ pay # after"
      "\<forall>q \<in> set before. p_providerRef q \<noteq> reference" "p_providerRef pay = reference"
    by blast
  from 5(7) have r: "r = \<lparr>r_payment = pay', r_order = ord', r_idempotent = False\<rparr>" by simp
  have sel: "r_payment r = pay'" "r_idempotent r = False" by (simp_all add: r)
  from ids have "updateOne (\<lambda>q. p_id q = p_id pay) (\<lambda>_. storedPayment pay') (payments s)
                   = before @ storedPayment pay' # after"
    unfolding split(1) by (rule updateOne_at)
  moreover have "payments t = updateOne (\<lambda>q. p_id q = p_id pay)
                                (\<lambda>_. storedPayment pay') (payments s)"
    unfolding 5(8) by (simp add: notifyCustomer_frame)
  ultimately have stored: "payments t = before @ storedPayment pay' # after"
    by (rule back_subst [where P = "\<lambda>x. payments t = x", rotated])
  have kept: "p_id pay' = p_id pay" "p_tenantId pay' = p_tenantId pay"
    "p_status pay' = Success"
    by (simp_all add: 5(5))
  have "payments s = before @ pay # after
       \<and> (\<forall>q \<in> set before. p_providerRef q \<noteq> reference)
       \<and> p_providerRef pay = reference
       \<and> p_id (r_payment r) = p_id pay \<and> p_tenantId (r_payment r) = p_tenantId pay
       \<and> p_status (r_payment r) = Success
       \<and> payments t = before @ (if r_idempotent r then pay
                                 else storedPayment (r_payment r)) # after"
    using split kept stored by (simp add: sel)
  then show ?case by (intro exI)
qed

lemma finalize_finds_holder:
  assumes "pay \<in> set (payments s)" and "p_providerRef pay = reference"
  shows "fst (finalizeSuccessfulPayment e now reference md s) \<noteq> Inl PaymentReferenceNotFound"
proof
  assume missing: "fst (finalizeSuccessfulPayment e now reference md s) = Inl PaymentReferenceNotFound"
  then have "finalizeSuccessfulPayment e now reference md s
               = (Inl PaymentReferenceNotFound, snd (finalizeSuccessfulPayment e now reference md s))"
    by (metis prod.collapse)
  from finalize_outcomes [OF this]
  have "find (\<lambda>p. p_providerRef p = reference) (payments s) = None"
    by (auto dest: decrementLines_error)
  with assms show False
    by (simp add: find_None_iff)
qed

text \<open>
  C8, amended. Payments are identified by \<^verbatim>\<open>_id\<close>, and within one tenant no two
  payments hold the same provider reference: both hold in every state reached from a
  state where they hold, by any sequence of checkouts, finalize calls, admin status
  updates and tracking events (checkout is refused by the unique index
  \<^verbatim>\<open>{ tenantId, providerRef }\<close>; nothing else creates a payment or changes a
  reference). Two tenants may hold the same reference. Finalize looks the payment up by
  reference alone: when it returns a result, the payment it returns is the first payment
  holding the reference, now successful, with the same \<^verbatim>\<open>_id\<close> and tenant, and it
  is the only payment finalize writes (every other payment is left as it was). For a
  payment whose reference no other payment holds, finalize does not answer that the
  reference is not found, and the payment it returns is that payment.
\<close>

theorem payment_reference_unique_per_tenant:
  assumes "distinct (map p_id (payments s))"
      and "distinct (map (\<lambda>p. (p_tenantId p, p_providerRef p)) (payments s))"
  shows "distinct (map p_id (payments (run ops s)))
       \<and> distinct (map (\<lambda>p. (p_tenantId p, p_providerRef p)) (payments (run ops s)))
       \<and> (finalizeSuccessfulPayment e now reference md (run ops s) = (Inr r, t)
            \<longrightarrow> (\<exists>before first after.
                   payments (run ops s) = before @ first # after
                 \<and> (\<forall>q \<in> set before. p_providerRef q \<noteq> reference)
                 \<and> p_providerRef first = reference
                 \<and> p_id (r_payment r) = p_id first
                 \<and> p_tenantId (r_payment r) = p_tenantId first
                 \<and> p_status (r_payment r) = Success
                 \<and> payments t = before @ (if r_idempotent r then first
                                           else storedPayment (r_payment r)) # after))
       \<and> (pay \<in> set (payments (run ops s)) \<and> p_providerRef pay = reference
            \<and> (\<forall>q \<in> set (payments (run ops s)). p_providerRef q = reference \<longrightarrow> q = pay)
            \<longrightarrow> fst (finalizeSuccessfulPayment e now reference md (run ops s))
                   \<noteq> Inl PaymentReferenceNotFound
              \<and> (finalizeSuccessfulPayment e now reference md (run ops s) = (Inr r, t)
                   \<longrightarrow> p_id (r_payment r) = p_id pay
                     \<and> p_tenantId (r_payment r) = p_tenantId pay
                     \<and> p_status (r_payment r) = Success))"
    (is "?ids \<and> ?keys \<and> (?returned \<longrightarrow> ?first) \<and> (?sole \<longrightarrow> ?found \<and> (?returned \<longrightarrow> ?same))")
proof -
  have inv: "?ids \<and> ?keys"
    using assms
  proof (induction ops arbitrary: s)
    case Nil
    then show ?case by simp
  next
    case (Cons op ops)
    from payments_step_indexed [OF Cons.prems, of op] Cons.IH [of "step op s"]
    show ?case by simp
  qed
  from inv have ids: ?ids and keys: ?keys by blast+
  have first: "?returned \<longrightarrow> ?first"
  proof
    assume ?returned
    from finalize_resolves_first [OF ids this] show ?first .
  qed
  have sole: "?sole \<longrightarrow> ?found \<and> (?returned \<longrightarrow> ?same)"
  proof (intro impI conjI)
    assume ?sole
    then show ?found by (intro finalize_finds_holder [of pay]) simp_all
  next
    assume sole: ?sole and ret: ?returned
    from finalize_resolves_first [OF ids ret] obtain before first' after where
      f: "payments (run ops s) = before @ first' # after" "p_providerRef first' = reference"
         "p_id (r_payment r) = p_id first'" "p_tenantId (r_payment r) = p_tenantId first'"
         "p_status (r_payment r) = Success"
      by blast
    from f(1) have "first' \<in> set (payments (run ops s))" by simp
    with sole f(2) have "first' = pay" by blast
    with f show "p_id (r_payment r) = p_id pay" "p_tenantId (r_payment r) = p_tenantId pay"
      "p_status (r_payment r) = Success"
      by simp_all
  qed
  show ?thesis
    by (rule conjI [OF ids conjI [OF keys conjI [OF first sole]]])
qed

theorem payment_reference_unique_per_tenant_witness:
  "distinct (map (\<lambda>p. (p_tenantId p, p_providerRef p)) (payments collided_db))
   \<and> fst (finalizeSuccessfulPayment demo_env 4000 ''PAY-2000-K3J9QX'' demo_md demo_db)
       \<noteq> Inl PaymentReferenceNotFound
   \<and> p_id demo_paid_payment = p_id demo_payment
   \<and> p_tenantId demo_paid_payment = p_tenantId demo_payment
   \<and> p_status demo_paid_payment = Success
   \<and> (\<exists>before first after.
         payments demo_db = before @ first # after
       \<and> p_providerRef first = ''PAY-2000-K3J9QX''
       \<and> p_id demo_paid_payment = p_id first
       \<and> payments demo_paid_db = before @ storedPayment demo_paid_payment # after)"
proof -
  have empty: "distinct (map p_id (payments two_tenants_db))"
    "distinct (map (\<lambda>p. (p_tenantId p, p_providerRef p)) (payments two_tenants_db))"
    by (simp_all add: two_tenants_db_def)
  have two: "run
      [Checkout demo_env demo_gateway 2000 ''K3J9QX'' 50 60 1 7 (Some inline_address),
       Checkout demo_env demo_gateway 2000 ''K3J9QX'' 52 62 2 8 (Some inline_address)]
      two_tenants_db = collided_db"
    by (simp only: run.simps step.simps checkout_demo checkout_tenant2 snd_conv)
  from payment_reference_unique_per_tenant [OF empty,
      of "[Checkout demo_env demo_gateway 2000 ''K3J9QX'' 50 60 1 7 (Some inline_address),
           Checkout demo_env demo_gateway 2000 ''K3J9QX'' 52 62 2 8 (Some inline_address)]"]
  have per_tenant: "distinct (map (\<lambda>p. (p_tenantId p, p_providerRef p)) (payments collided_db))"
    unfolding two by blast
  have one: "distinct (map p_id (payments demo_db))"
    "distinct (map (\<lambda>p. (p_tenantId p, p_providerRef p)) (payments demo_db))"
    by (simp_all add: demo_db_def)
  have sole: "demo_payment \<in> set (payments demo_db)
      \<and> p_providerRef demo_payment = ''PAY-2000-K3J9QX''
      \<and> (\<forall>q \<in> set (payments demo_db). p_providerRef q = ''PAY-2000-K3J9QX'' \<longrightarrow> q = demo_payment)"
    by (simp add: demo_db_def demo_payment_def)
  note at_demo = payment_reference_unique_per_tenant [OF one, of "[]" demo_env 4000 "''PAY-2000-K3J9QX''" demo_md
      "\<lparr>r_payment = demo_paid_payment, r_order = demo_paid_order, r_idempotent = False\<rparr>"
      demo_paid_db demo_payment, unfolded run.simps finalize_result.select_convs]
  note found = at_demo [THEN conjunct2, THEN conjunct2, THEN conjunct2, rule_format, OF sole,
      THEN conjunct1]
  note same = at_demo [THEN conjunct2, THEN conjunct2, THEN conjunct2, rule_format, OF sole,
      THEN conjunct2, rule_format, OF finalize_demo]
  note first = at_demo [THEN conjunct2, THEN conjunct2, THEN conjunct1, rule_format,
      OF finalize_demo, unfolded if_False]
  from found same
  have resolved: "fst (finalizeSuccessfulPayment demo_env 4000 ''PAY-2000-K3J9QX'' demo_md demo_db)
       \<noteq> Inl PaymentReferenceNotFound
   \<and> p_id demo_paid_payment = p_id demo_payment
   \<and> p_tenantId demo_paid_payment = p_tenantId demo_payment
   \<and> p_status demo_paid_payment = Success"
    by (intro conjI) simp_all
  from first obtain before first' after where
    "payments demo_db = before @ first' # after" "p_providerRef first' = ''PAY-2000-K3J9QX''"
    "p_id demo_paid_payment = p_id first'"
    "payments demo_paid_db = before @ storedPayment demo_paid_payment # after"
    by (elim exE conjE)
  then have touched: "\<exists>before first after.
         payments demo_db = before @ first # after
       \<and> p_providerRef first = ''PAY-2000-K3J9QX''
       \<and> p_id demo_paid_payment = p_id first
       \<and> payments demo_paid_db = before @ storedPayment demo_paid_payment # after"
    by (intro exI [of _ before] exI [of _ first'] exI [of _ after] conjI)
  show ?thesis
    by (rule conjI [OF per_tenant]) (use resolved touched in simp)
qed

subsection \<open>The timeline only grows\<close>

text \<open>What each operation does to the orders.\<close>

lemma statusUpdate_pushes:
  "o_id (statusUpdate now role body ord) = o_id ord"
  "\<exists>ev. o_timeline (statusUpdate now role body ord) = o_timeline ord @ [ev]"
  by (simp_all add: statusUpdate_def Let_def)

lemma admin_orders:
  "orders (snd (adminUpdateOrderStatus e now tenantId orderId role parsed s)) = orders s
   \<or> (\<exists>ord ord' ev. ord \<in> set (orders s) \<and> o_id ord' = o_id ord
         \<and> o_timeline ord' = o_timeline ord @ [ev]
         \<and> orders (snd (adminUpdateOrderStatus e now tenantId orderId role parsed s))
             = updateOne (\<lambda>q. o_id q = o_id ord) (\<lambda>_. ord') (orders s))"
proof (cases parsed)
  case None
  then show ?thesis by (simp add: adminUpdateOrderStatus_def)
next
  case (Some body)
  show ?thesis
  proof (cases "find (\<lambda>q. o_id q = orderId \<and> o_tenantId q = tenantId) (orders s)")
    case None
    with Some show ?thesis by (simp add: adminUpdateOrderStatus_def)
  next
    case found: (Some ord)
    from find_Some_set [OF found] have mem: "ord \<in> set (orders s)" by simp
    from Some found have
      "orders (snd (adminUpdateOrderStatus e now tenantId orderId role parsed s)) = orders s
       \<or> orders (snd (adminUpdateOrderStatus e now tenantId orderId role parsed s))
           = updateOne (\<lambda>q. o_id q = o_id ord) (\<lambda>_. statusUpdate now role body ord) (orders s)"
      by (simp add: adminUpdateOrderStatus_def Let_def notifyCustomer_frame)
    with mem statusUpdate_pushes [of now role body ord] show ?thesis
      by blast
  qed
qed

lemma carrierUpdate_pushes:
  "o_id (carrierUpdate now role body ord) = o_id ord"
  "\<exists>ev. o_timeline (carrierUpdate now role body ord) = o_timeline ord @ [ev]"
  by (simp_all add: carrierUpdate_def Let_def)

lemma tracking_orders:
  "orders (snd (postTrackingEvent now newEventId tenantId orderId role parsed s)) = orders s
   \<or> (\<exists>ord ord' ev. ord \<in> set (orders s) \<and> o_id ord' = o_id ord
         \<and> o_timeline ord' = o_timeline ord @ [ev]
         \<and> orders (snd (postTrackingEvent now newEventId tenantId orderId role parsed s))
             = updateOne (\<lambda>q. o_id q = o_id ord) (\<lambda>_. ord') (orders s))"
proof (cases parsed)
  case None
  then show ?thesis by (simp add: postTrackingEvent_def)
next
  case (Some body)
  show ?thesis
  proof (cases "find (\<lambda>q. o_id q = orderId \<and> o_tenantId q = tenantId) (orders s)")
    case None
    with Some show ?thesis by (simp add: postTrackingEvent_def)
  next
    case found: (Some ord)
    from find_Some_set [OF found] have mem: "ord \<in> set (orders s)" by simp
    from Some found have
      "orders (snd (postTrackingEvent now newEventId tenantId orderId role parsed s)) = orders s
       \<or> orders (snd (postTrackingEvent now newEventId tenantId orderId role parsed s))
           = updateOne (\<lambda>q. o_id q = o_id ord) (\<lambda>_. carrierUpdate now role body ord) (orders s)"
      by (simp add: postTrackingEvent_def Let_def)
    with mem carrierUpdate_pushes [of now role body ord] show ?thesis
      by blast
  qed
qed

lemma finalize_orders:
  "orders (snd (finalizeSuccessfulPayment e now reference md s)) = orders s
   \<or> (\<exists>ord ord' ev. ord \<in> set (orders s) \<and> o_id ord' = o_id ord
         \<and> o_timeline ord' = o_timeline ord @ [ev]
         \<and> orders (snd (finalizeSuccessfulPayment e now reference md s))
             = updateOne (\<lambda>q. o_id q = o_id ord) (\<lambda>_. ord') (orders s))"
proof -
  have "finalizeSuccessfulPayment e now reference md s
          = (fst (finalizeSuccessfulPayment e now reference md s),
             snd (finalizeSuccessfulPayment e now reference md s))"
    by simp
  from finalize_outcomes [OF this] show ?thesis
  proof (elim disjE exE conjE)
    fix pay ord ps pay' ord'
    assume found: "find (\<lambda>q. o_id q = p_orderId pay) (orders s) = Some ord"
      and ord': "ord' = ord\<lparr>o_status := Paid,
                     o_timeline := o_timeline ord @
                       [\<lparr>ev_status = Paid, ev_note = ''Payment confirmed.'',
                         ev_trackingNumber = None, ev_actor = ''system'', ev_at = now\<rparr>],
                     o_updatedAt := now\<rparr>"
      and s': "snd (finalizeSuccessfulPayment e now reference md s) =
          notifyCustomer e ord' Paid None ''Payment confirmed.''
             (s\<lparr>payments := updateOne (\<lambda>q. p_id q = p_id pay)
                              (\<lambda>_. storedPayment pay') (payments s),
                orders := updateOne (\<lambda>q. o_id q = o_id ord) (\<lambda>_. ord') (orders s),
                products := ps,
                carts := updateOne
                  (\<lambda>c. c_tenantId c = o_tenantId ord \<and> c_userId c = Some (o_userId ord))
                  (\<lambda>c. c\<lparr>c_lines := [], c_updatedAt := now\<rparr>) (carts s)\<rparr>)"
    from find_Some_set [OF found] have "ord \<in> set (orders s)" by simp
    moreover have "o_id ord' = o_id ord" by (simp add: ord')
    moreover have "o_timeline ord' = o_timeline ord @
                       [\<lparr>ev_status = Paid, ev_note = ''Payment confirmed.'',
                         ev_trackingNumber = None, ev_actor = ''system'', ev_at = now\<rparr>]"
      by (simp add: ord')
    moreover have "orders (snd (finalizeSuccessfulPayment e now reference md s))
             = updateOne (\<lambda>q. o_id q = o_id ord) (\<lambda>_. ord') (orders s)"
      by (simp add: s' notifyCustomer_frame)
    ultimately show ?thesis by blast
  qed simp_all
qed

lemma checkout_orders:
  "orders (snd (checkoutInitialize e gw now rnd newOrderId newPaymentId tenantId userId parsed s))
     = orders s
   \<or> (\<exists>new. insertOrder new (orders s)
         = Inr (orders (snd (checkoutInitialize e gw now rnd newOrderId newPaymentId tenantId
                               userId parsed s))))"
proof -
  have "checkoutInitialize e gw now rnd newOrderId newPaymentId tenantId userId parsed s
          = (fst (checkoutInitialize e gw now rnd newOrderId newPaymentId tenantId userId parsed s),
             snd (checkoutInitialize e gw now rnd newOrderId newPaymentId tenantId userId parsed s))"
    by simp
  from checkout_outcomes [OF this] show ?thesis
  proof (elim disjE exE conjE)
    fix body cart shippingAddress paystack
    assume "insertOrder (newOrder newOrderId tenantId userId (orderRefAt now)
                (calculateCartTotals (c_lines cart)) shippingAddress cart now) (orders s)
          = Inr (orders s @ [newOrder newOrderId tenantId userId (orderRefAt now)
                (calculateCartTotals (c_lines cart)) shippingAddress cart now])"
      and "snd (checkoutInitialize e gw now rnd newOrderId newPaymentId tenantId userId parsed s)
         = s\<lparr>orders := orders s @ [newOrder newOrderId tenantId userId (orderRefAt now)
                (calculateCartTotals (c_lines cart)) shippingAddress cart now],
               payments := payments s @ [newPayment newPaymentId tenantId userId newOrderId
                (paymentRefAt now rnd) (calculateCartTotals (c_lines cart)) paystack now]\<rparr>"
    then have "insertOrder (newOrder newOrderId tenantId userId (orderRefAt now)
                (calculateCartTotals (c_lines cart)) shippingAddress cart now) (orders s)
      = Inr (orders (snd (checkoutInitialize e gw now rnd newOrderId newPaymentId tenantId
                               userId parsed s)))"
      by simp
    then show ?thesis by blast
  qed simp
qed

lemma orders_step:
  "orders (step op s) = orders s
   \<or> (\<exists>ord ord' ev. ord \<in> set (orders s) \<and> o_id ord' = o_id ord
         \<and> o_timeline ord' = o_timeline ord @ [ev]
         \<and> orders (step op s) = updateOne (\<lambda>q. o_id q = o_id ord) (\<lambda>_. ord') (orders s))
   \<or> (\<exists>new. insertOrder new (orders s) = Inr (orders (step op s)))"
proof (cases op)
  case (Finalize e now reference md)
  with finalize_orders [of e now reference md s] show ?thesis by auto
next
  case (AdminStatus e now tenantId orderId role parsed)
  with admin_orders [of e now tenantId orderId role parsed s] show ?thesis by auto
next
  case (TrackingEvent now newEventId tenantId orderId role parsed)
  with tracking_orders [of now newEventId tenantId orderId role parsed s] show ?thesis by auto
next
  case (Checkout e gw now rnd newOrderId newPaymentId tenantId userId parsed)
  with checkout_orders [of e gw now rnd newOrderId newPaymentId tenantId userId parsed s]
  show ?thesis by auto
qed


lemma updateOne_member:
  "x \<in> set xs \<Longrightarrow> x \<in> set (updateOne M f xs) \<or> (M x \<and> f x \<in> set (updateOne M f xs))"
  by (induction xs) auto

lemma distinct_key_unique:
  "distinct (map k xs) \<Longrightarrow> x \<in> set xs \<Longrightarrow> y \<in> set xs \<Longrightarrow> k x = k y \<Longrightarrow> x = y"
  by (induction xs) (auto simp: rev_image_eqI)

lemma orders_step_grow:
  assumes "distinct (map o_id (orders s))"
  shows "distinct (map o_id (orders (step op s)))
       \<and> (\<forall>x \<in> set (orders s). \<exists>x' \<in> set (orders (step op s)).
             o_id x' = o_id x \<and> prefix (o_timeline x) (o_timeline x'))"
proof -
  from orders_step [of op s]
  consider (same) "orders (step op s) = orders s"
    | (pushed) ord ord' ev where "ord \<in> set (orders s)" "o_id ord' = o_id ord"
        "o_timeline ord' = o_timeline ord @ [ev]"
        "orders (step op s) = updateOne (\<lambda>q. o_id q = o_id ord) (\<lambda>_. ord') (orders s)"
    | (inserted) new where "insertOrder new (orders s) = Inr (orders (step op s))"
    by blast
  then show ?thesis
  proof cases
    case same
    with assms show ?thesis by auto
  next
    case pushed
    have ids: "map o_id (orders (step op s)) = map o_id (orders s)"
      unfolding pushed(4) by (rule map_updateOne_key) (simp add: pushed(2))
    have "\<exists>x' \<in> set (orders (step op s)). o_id x' = o_id x \<and> prefix (o_timeline x) (o_timeline x')"
      if "x \<in> set (orders s)" for x
    proof -
      from updateOne_member [OF that, of "\<lambda>q. o_id q = o_id ord" "\<lambda>_. ord'"]
      consider "x \<in> set (orders (step op s))"
        | "o_id x = o_id ord" "ord' \<in> set (orders (step op s))"
        unfolding pushed(4) by blast
      then show ?thesis
      proof cases
        case 1
        then show ?thesis by auto
      next
        case 2
        from distinct_key_unique [OF assms that pushed(1) 2(1)] have "x = ord" .
        with 2 pushed(2,3) show ?thesis by auto
      qed
    qed
    with assms ids show ?thesis by simp
  next
    case inserted
    then have fresh: "o_id new \<notin> set (map o_id (orders s))"
      and app: "orders (step op s) = orders s @ [new]"
      by (auto simp: insertOrder_def list_ex_iff split: if_splits)
    from assms fresh app show ?thesis by auto
  qed
qed

text \<open>
  C9. Orders are identified by \<^verbatim>\<open>_id\<close>. After any sequence of finalize calls, admin
  status updates, carrier tracking events and checkouts, every order of the starting
  state is still there, under the same id, and its timeline then is its timeline before
  with entries added at the end: the old timeline is a prefix of the new one, so no entry
  was removed, replaced or moved.
\<close>

theorem timeline_append_only:
  assumes "distinct (map o_id (orders s))" and "ord \<in> set (orders s)"
  shows "\<exists>ord' \<in> set (orders (run ops s)).
           o_id ord' = o_id ord \<and> prefix (o_timeline ord) (o_timeline ord')"
  using assms
proof (induction ops arbitrary: s ord)
  case Nil
  then show ?case by auto
next
  case (Cons op ops)
  from orders_step_grow [OF Cons.prems(1), of op] Cons.prems(2)
  obtain mid where mid: "distinct (map o_id (orders (step op s)))"
    "mid \<in> set (orders (step op s))" "o_id mid = o_id ord"
    "prefix (o_timeline ord) (o_timeline mid)"
    by blast
  from Cons.IH [OF mid(1,2)]
  obtain ord' where "ord' \<in> set (orders (run ops (step op s)))" "o_id ord' = o_id mid"
    "prefix (o_timeline mid) (o_timeline ord')"
    by blast
  with mid(3,4) show ?case
    by (auto intro: prefix_order.trans)
qed

lemma run_demo_ops:
  "map o_status (orders (run demo_ops demo_db)) = [Delivered]
   \<and> map (\<lambda>ord. map ev_status (o_timeline ord)) (orders (run demo_ops demo_db))
       = [[Pending, Paid, Shipped, Delivered]]"
  unfolding demo_ops_def run.simps step.simps finalize_demo snd_conv
  by (simp add: adminUpdateOrderStatus_def postTrackingEvent_def demo_defs Let_def
        canTransition_def statusUpdate_def statusNote_def carrierUpdate_def
        notifyCustomer_def enqueueOrderStatusNotification_def trim_def isSpace_def)

theorem timeline_append_only_witness:
  "(\<exists>ord' \<in> set (orders (run demo_ops demo_db)).
       o_id ord' = 50 \<and> prefix (o_timeline demo_order) (o_timeline ord'))
   \<and> map (\<lambda>ord. map ev_status (o_timeline ord)) (orders (run demo_ops demo_db))
       = [[Pending, Paid, Shipped, Delivered]]"
proof -
  have ids: "distinct (map o_id (orders demo_db))" and mem: "demo_order \<in> set (orders demo_db)"
    and id: "o_id demo_order = 50"
    by (simp_all add: demo_db_def demo_order_def)
  from timeline_append_only [OF ids mem, of demo_ops] id run_demo_ops show ?thesis
    by simp
qed

end
